theory Spec2Isabelle
  imports Complex_Main "HOL-Library.Option_ord"
begin

section \<open>POS cash sessions of be-BOP: data model\<close>

text \<open>
  The embedding follows \<^verbatim>\<open>src/lib/server/pos-sessions.ts\<close> (the second part of
  \<^verbatim>\<open>PosTabGroup.ts\<close> in the source tree), \<^verbatim>\<open>src/lib/types/PosSession.ts\<close> and the
  closing route \<^verbatim>\<open>routes/(app)/pos/closing/+page.server.ts\<close>.

  Conventions of the model:
  \<^item> a JavaScript \<^verbatim>\<open>number\<close> is an IEEE double: a finite value, given by the real it
    denotes, an infinity or NaN; every addition and subtraction rounds to the nearest
    double, ties to even; the zero with a sign bit is not told from zero, which no
    comparison and no formatting of the code does either;
  \<^item> a \<^verbatim>\<open>Date\<close> is its time value in milliseconds, an \<^typ>\<open>int\<close>; the k-th evaluation
    of \<^verbatim>\<open>new Date()\<close> during one call returns \<open>clk k\<close>, where the clock \<open>clk\<close> is an
    input of the call;
  \<^item> an \<^verbatim>\<open>ObjectId\<close> is the string it prints as; \<^verbatim>\<open>new ObjectId()\<close> is an input;
    the field \<^verbatim>\<open>_id\<close> is \<open>doc_id\<close>;
  \<^item> an optional field is an \<^typ>\<open>'a option\<close>, \<^verbatim>\<open>undefined\<close> being \<^term>\<open>None\<close>;
  \<^item> a MongoDB collection is the list of its documents in natural order;
  \<^item> a thrown \<^verbatim>\<open>error(status, message)\<close> is an \<open>Inl\<close> result; every operation returns
    its result together with the database it leaves behind;
  \<^item> a synchronous function that is passed neither the clock nor the database finds them
    all the same (\<^verbatim>\<open>new Date()\<close>, the imported \<^verbatim>\<open>collections\<close>): the two renderers are
    given the time \<open>now\<close> and the database, and return their text together with the
    database they leave behind.
\<close>

type_synonym ObjectId = string
type_synonym Date = int
type_synonym Currency = string
type_synonym PaymentMethod = string

datatype PosSessionStatus = Active | Closed

record PosSessionUser =
  userId :: ObjectId
  userLogin :: string
  userAlias :: "string option"

text \<open>A \<^verbatim>\<open>number\<close>: \<open>Finite x\<close> is the double whose value is the real \<open>x\<close>.\<close>

datatype number = Finite real | PosInf | NegInf | NaN

text \<open>The anonymous type \<^verbatim>\<open>{ amount: number; currency: Currency }\<close>; incomes and outcomes
  have the same two fields and one more.\<close>

record Money =
  amount :: number
  currency :: Currency

record PosSessionIncome = Money +
  paymentMethod :: PaymentMethod

record PosSessionOutcome = Money +
  category :: string

record PosSessionXTicket =
  generatedAt :: Date
  generatedBy :: PosSessionUser

record Timestamps =
  createdAt :: Date
  updatedAt :: Date

record PosSession = Timestamps +
  doc_id :: ObjectId
  status :: PosSessionStatus
  openedAt :: Date
  openedBy :: PosSessionUser
  closedAt :: "Date option"
  closedBy :: "PosSessionUser option"
  cashOpening :: Money
  cashClosing :: "Money option"
  cashClosingTheoretical :: "Money option"
  cashDelta :: "Money option"
  cashDeltaJustification :: "string option"
  dailyIncomes :: "PosSessionIncome list"
  dailyOutcomes :: "PosSessionOutcome list"
  xTickets :: "PosSessionXTicket list"

text \<open>Of an order and its payments, the fields that the session code reads:
  \<open>payment_method\<close> is \<^verbatim>\<open>payment.method\<close>, \<open>price\<close> is \<^verbatim>\<open>payment.currencySnapshot.main.price\<close>.\<close>

record Payment =
  payment_method :: PaymentMethod
  paymentStatus :: string
  price :: Money

record Order =
  orderCreatedAt :: Date
  orderStatus :: string
  payments :: "Payment list"

text \<open>The fields of \<^verbatim>\<open>runtimeConfig\<close> that the session code and the closing route read.\<close>

record RuntimeConfig =
  brandName :: string
  posSessionsEnabled :: bool
  posCashDeltaJustificationMandatory :: bool

text \<open>The two formatting built-ins of the host, \<^verbatim>\<open>Date.prototype.toLocaleString()\<close> and
  \<^verbatim>\<open>Number.prototype.toFixed(2)\<close>: the first depends on the locale and the time zone of
  the process; both are parameters of the model.\<close>

record Host =
  toLocaleString :: "Date \<Rightarrow> string"
  toFixed2 :: "number \<Rightarrow> string"

datatype warning = OpeningAmountMismatch Money Money

text \<open>The state: the two collections and what \<^verbatim>\<open>console.warn\<close> has printed.\<close>

record Database =
  posSessions :: "PosSession list"
  orders :: "Order list"
  console :: "warning list"

datatype error = HttpError nat string | DuplicateKey

definition NotEnabled :: error where
  "NotEnabled = HttpError 400 ''POS sessions are not enabled''"

definition AlreadyActive :: error where
  "AlreadyActive = HttpError 400 ''There is already an active POS session''"

definition NotFound :: error where
  "NotFound = HttpError 404 ''POS session not found''"

definition AlreadyClosed :: error where
  "AlreadyClosed = HttpError 400 ''POS session is already closed''"

definition JustificationRequired :: error where
  "JustificationRequired =
     HttpError 400 ''Cash delta justification is required when there is a difference''"

definition NotActive :: error where
  "NotActive = HttpError 400 ''POS session is not active''"

definition NoActiveSession :: error where
  "NoActiveSession = HttpError 404 ''No active POS session''"

section \<open>Numbers\<close>

text \<open>\<open>pow2 e\<close> is 2 to the power \<open>e\<close>.\<close>

definition pow2 :: "int \<Rightarrow> real" where
  "pow2 e = (if 0 \<le> e then 2 ^ nat e else 1 / 2 ^ nat (- e))"

text \<open>The binary exponent of a positive real \<open>a\<close>: the \<open>e\<close> with \<open>2^e \<le> a < 2^(e+1)\<close>, found by
  halving or doubling; it stops at -1022, below which doubles are subnormal, and at 1025,
  above which every value rounds to an infinity.\<close>

fun expoUp :: "nat \<Rightarrow> real \<Rightarrow> int" where
  "expoUp fuel a = (if fuel = 0 \<or> a < 2 then 0 else expoUp (fuel - 1) (a / 2) + 1)"

fun expoDown :: "nat \<Rightarrow> real \<Rightarrow> int" where
  "expoDown fuel a = (if fuel = 0 \<or> 1 \<le> a then 0 else expoDown (fuel - 1) (a * 2) - 1)"

declare expoUp.simps [simp del] expoDown.simps [simp del]

definition expo :: "real \<Rightarrow> int" where
  "expo a = (if 1 \<le> a then expoUp 1025 a else expoDown 1022 a)"

definition roundHalfEven :: "real \<Rightarrow> int" where
  "roundHalfEven y =
     (let f = \<lfloor>y\<rfloor>; d = y - of_int f
      in if d < 1 / 2 then f else if 1 / 2 < d then f + 1 else if even f then f else f + 1)"

text \<open>The double nearest to a real, ties to even: a multiple of the quantum \<open>2^(e-52)\<close> of
  its binade, an infinity from \<open>2^1024\<close> on.\<close>

definition round64 :: "real \<Rightarrow> number" where
  "round64 x =
     (if x = 0 then Finite 0
      else let a = \<bar>x\<bar>;
               q = pow2 (expo a - 52);
               r = of_int (roundHalfEven (a / q)) * q
           in if pow2 1024 \<le> r then (if x < 0 then NegInf else PosInf)
              else Finite (if x < 0 then - r else r))"

text \<open>The operators of the code on numbers: \<^verbatim>\<open>+\<close>, unary and binary \<^verbatim>\<open>-\<close>, \<^verbatim>\<open>Math.abs\<close>,
  \<^verbatim>\<open>>\<close>, \<^verbatim>\<open>===\<close> and \<^verbatim>\<open>>=\<close>.\<close>

fun jsAdd :: "number \<Rightarrow> number \<Rightarrow> number" where
  "jsAdd NaN b = NaN"
| "jsAdd a NaN = NaN"
| "jsAdd PosInf NegInf = NaN"
| "jsAdd NegInf PosInf = NaN"
| "jsAdd PosInf b = PosInf"
| "jsAdd a PosInf = PosInf"
| "jsAdd NegInf b = NegInf"
| "jsAdd a NegInf = NegInf"
| "jsAdd (Finite x) (Finite y) = round64 (x + y)"

declare jsAdd.simps [simp del]

fun jsNeg :: "number \<Rightarrow> number" where
  "jsNeg NaN = NaN"
| "jsNeg PosInf = NegInf"
| "jsNeg NegInf = PosInf"
| "jsNeg (Finite x) = Finite (- x)"

definition jsSub :: "number \<Rightarrow> number \<Rightarrow> number" where
  "jsSub a b = jsAdd a (jsNeg b)"

fun jsAbs :: "number \<Rightarrow> number" where
  "jsAbs NaN = NaN"
| "jsAbs PosInf = PosInf"
| "jsAbs NegInf = PosInf"
| "jsAbs (Finite x) = Finite \<bar>x\<bar>"

fun jsGt :: "number \<Rightarrow> number \<Rightarrow> bool" where
  "jsGt NaN b = False"
| "jsGt a NaN = False"
| "jsGt PosInf PosInf = False"
| "jsGt PosInf b = True"
| "jsGt a PosInf = False"
| "jsGt NegInf b = False"
| "jsGt a NegInf = True"
| "jsGt (Finite x) (Finite y) = (y < x)"

definition jsStrictEq :: "number \<Rightarrow> number \<Rightarrow> bool" where
  "jsStrictEq a b = (a = b \<and> a \<noteq> NaN)"

definition jsGe :: "number \<Rightarrow> number \<Rightarrow> bool" where
  "jsGe a b = (jsGt a b \<or> jsStrictEq a b)"

text \<open>The value of a decimal literal of the source, and of a decimal string that
  \<^verbatim>\<open>Number(...)\<close> parses: the nearest double. The two literals of the code.\<close>

definition lit :: "real \<Rightarrow> number" where
  "lit x = round64 x"

definition zero :: number where
  "zero = Finite 0"

definition pointZeroOne :: number where
  "pointZeroOne = lit 0.01"

section \<open>The collection store\<close>

text \<open>\<^verbatim>\<open>findOne(filter)\<close>: the first document that matches.\<close>

fun findOne :: "('a \<Rightarrow> bool) \<Rightarrow> 'a list \<Rightarrow> 'a option" where
  "findOne P [] = None"
| "findOne P (x # xs) = (if P x then Some x else findOne P xs)"

text \<open>\<^verbatim>\<open>findOne(filter, { sort: { key: -1 } })\<close>: a matching document with the greatest key,
  the first of them in natural order.\<close>

fun pickGreatest :: "('a \<Rightarrow> 'k::linorder) \<Rightarrow> 'a \<Rightarrow> 'a list \<Rightarrow> 'a" where
  "pickGreatest key best [] = best"
| "pickGreatest key best (x # xs) =
     pickGreatest key (if key best < key x then x else best) xs"

definition findOneSortDesc :: "('a \<Rightarrow> bool) \<Rightarrow> ('a \<Rightarrow> 'k::linorder) \<Rightarrow> 'a list \<Rightarrow> 'a option" where
  "findOneSortDesc P key xs =
     (case filter P xs of [] \<Rightarrow> None | y # ys \<Rightarrow> Some (pickGreatest key y ys))"

text \<open>\<^verbatim>\<open>replaceOne(filter, doc)\<close> and \<^verbatim>\<open>updateOne(filter, update)\<close> change the first
  document that matches, and nothing when none does.\<close>

fun updateOne :: "('a \<Rightarrow> bool) \<Rightarrow> ('a \<Rightarrow> 'a) \<Rightarrow> 'a list \<Rightarrow> 'a list" where
  "updateOne P f [] = []"
| "updateOne P f (x # xs) = (if P x then f x # xs else x # updateOne P f xs)"

definition replaceOne :: "('a \<Rightarrow> bool) \<Rightarrow> 'a \<Rightarrow> 'a list \<Rightarrow> 'a list" where
  "replaceOne P doc xs = updateOne P (\<lambda>_. doc) xs"

text \<open>\<^verbatim>\<open>insertOne(doc)\<close>: MongoDB refuses a document whose \<^verbatim>\<open>_id\<close> is in the collection.\<close>

definition insertOne :: "PosSession \<Rightarrow> PosSession list \<Rightarrow> error + PosSession list" where
  "insertOne doc xs =
     (if doc_id doc \<in> set (map doc_id xs) then Inl DuplicateKey else Inr (xs @ [doc]))"

section \<open>Income aggregation\<close>

text \<open>A JavaScript \<^verbatim>\<open>Map\<close> keeps its keys in insertion order: an association list with
  distinct keys. \<^verbatim>\<open>set\<close> on a key of the map keeps the key's place.\<close>

type_synonym IncomesMap = "(PaymentMethod \<times> Money) list"

fun mapGet :: "('k \<times> 'v) list \<Rightarrow> 'k \<Rightarrow> 'v option" where
  "mapGet [] k = None"
| "mapGet ((k', v) # m) k = (if k' = k then Some v else mapGet m k)"

fun mapSet :: "('k \<times> 'v) list \<Rightarrow> 'k \<Rightarrow> 'v \<Rightarrow> ('k \<times> 'v) list" where
  "mapSet [] k v = [(k, v)]"
| "mapSet ((k', v') # m) k v = (if k' = k then (k, v) # m else (k', v') # mapSet m k v)"

text \<open>The body of \<^verbatim>\<open>paidPayments.forEach\<close>: add to the method's entry, or make one.\<close>

definition addPayment :: "IncomesMap \<Rightarrow> Payment \<Rightarrow> IncomesMap" where
  "addPayment incomes payment =
     (case mapGet incomes (payment_method payment) of
        Some existing \<Rightarrow>
          mapSet incomes (payment_method payment)
            (existing\<lparr>amount := jsAdd (amount existing) (amount (price payment))\<rparr>)
      | None \<Rightarrow>
          mapSet incomes (payment_method payment)
            \<lparr>amount = amount (price payment), currency = currency (price payment)\<rparr>)"

definition paidPayments :: "Database \<Rightarrow> PosSession \<Rightarrow> Payment list" where
  "paidPayments db session =
     filter (\<lambda>p. paymentStatus p = ''paid'')
       (concat (map payments
          (filter (\<lambda>order. openedAt session \<le> orderCreatedAt order \<and> orderStatus order = ''paid'')
             (orders db))))"

definition calculateDailyIncomes :: "Database \<Rightarrow> PosSession \<Rightarrow> IncomesMap" where
  "calculateDailyIncomes db session = foldl addPayment [] (paidPayments db session)"

section \<open>Ticket rendering\<close>

definition NL :: string where
  "NL = [CHR 0x0A]"

text \<open>\<^verbatim>\<open>lines.join('\n')\<close>.\<close>

fun joinLines :: "string list \<Rightarrow> string" where
  "joinLines [] = []"
| "joinLines [l] = l"
| "joinLines (l # ls) = l @ NL @ joinLines ls"

text \<open>\<^verbatim>\<open>user.userAlias || user.userLogin || user.userId\<close>: the first of the three that is
  neither undefined nor the empty string.\<close>

definition displayName :: "PosSessionUser \<Rightarrow> string" where
  "displayName u =
     (case userAlias u of
        Some a \<Rightarrow> if a \<noteq> [] then a else if userLogin u \<noteq> [] then userLogin u else userId u
      | None \<Rightarrow> if userLogin u \<noteq> [] then userLogin u else userId u)"

text \<open>A string that JavaScript takes for true: defined and not empty.\<close>

definition truthy :: "string option \<Rightarrow> bool" where
  "truthy j = (case j of None \<Rightarrow> False | Some s \<Rightarrow> s \<noteq> [])"

definition moneyLine :: "Host \<Rightarrow> string \<Rightarrow> number \<Rightarrow> Currency \<Rightarrow> string" where
  "moneyLine host label a c = ''  - '' @ label @ '' : '' @ toFixed2 host a @ '' '' @ c"

text \<open>\<open>now\<close> is what \<^verbatim>\<open>new Date()\<close> would return and \<open>db\<close> the database while the renderer runs;
  \<^verbatim>\<open>generateZTicketText\<close> reads neither.\<close>

definition generateZTicketText ::
  "RuntimeConfig \<Rightarrow> Host \<Rightarrow> Date \<Rightarrow> Database \<Rightarrow> PosSession \<Rightarrow> string \<times> Database" where
  "generateZTicketText cfg host now db session =
     (let currency' = (case dailyIncomes session of
                         [] \<Rightarrow> currency (cashOpening session)
                       | inc # _ \<Rightarrow> currency inc);
          totalIncome = foldl (\<lambda>sum inc. jsAdd sum (amount inc)) zero (dailyIncomes session);
          totalOutcome = foldl (\<lambda>sum out. jsAdd sum (amount out)) zero (dailyOutcomes session);
          cashIncome = (case find (\<lambda>i. paymentMethod i = ''point-of-sale'') (dailyIncomes session) of
                          Some i \<Rightarrow> amount i
                        | None \<Rightarrow> zero);
          cashOutcomes = totalOutcome;
          incomeLines = joinLines
            (map (\<lambda>inc. moneyLine host (paymentMethod inc) (amount inc) (currency inc))
               (dailyIncomes session));
          outcomeLines = joinLines
            (map (\<lambda>out. moneyLine host (category out) (amount out) (currency out))
               (dailyOutcomes session))
      in (brandName cfg @ '' Z ticket'' @ NL
         @ ''Opening time : '' @ toLocaleString host (openedAt session)
         @ '' by '' @ displayName (openedBy session) @ NL
         @ ''Closing time : ''
         @ (case closedAt session of None \<Rightarrow> ''undefined'' | Some d \<Rightarrow> toLocaleString host d)
         @ '' by ''
         @ (case closedBy session of None \<Rightarrow> ''undefined'' | Some u \<Rightarrow> displayName u)
         @ (case cashDelta session of
              None \<Rightarrow> []
            | Some d \<Rightarrow>
                if jsGt (jsAbs (amount d)) pointZeroOne
                then NL @ ''Daily Z includes cash balance error'' else [])
         @ NL @ NL
         @ ''Daily incomes :'' @ NL
         @ incomeLines @ NL
         @ ''Daily incomes total :'' @ NL
         @ ''  - '' @ toFixed2 host totalIncome @ '' '' @ currency' @ NL @ NL
         @ ''Daily outcomes :'' @ NL
         @ outcomeLines @ NL
         @ ''Daily outcomes total :'' @ NL
         @ ''  - '' @ toFixed2 host totalOutcome @ '' '' @ currency' @ NL @ NL
         @ ''Daily delta : '' @ (if jsGe (jsSub totalIncome totalOutcome) zero then ''+'' else [])
         @ toFixed2 host (jsSub totalIncome totalOutcome) @ '' '' @ currency' @ NL @ NL
         @ ''Cash balance :'' @ NL
         @ moneyLine host ''Initial cash at opening'' (amount (cashOpening session))
             (currency (cashOpening session)) @ NL
         @ moneyLine host ''Daily cash incomes'' cashIncome currency' @ NL
         @ moneyLine host ''Daily cash outcomes'' cashOutcomes currency'
         @ (case cashClosing session of
              None \<Rightarrow> []
            | Some c \<Rightarrow>
                NL @ moneyLine host ''Remaining cash at daily closing'' (amount c) (currency c))
         @ (case cashClosingTheoretical session of
              None \<Rightarrow> []
            | Some c \<Rightarrow>
                NL @ moneyLine host ''Theorical remaining cash at daily closing'' (amount c) (currency c))
         @ (case cashDelta session of
              None \<Rightarrow> []
            | Some d \<Rightarrow>
                NL @ ''Cash delta : '' @ (if jsGe (amount d) zero then ''+'' else [])
                @ toFixed2 host (amount d) @ '' '' @ currency d)
         @ (if truthy (cashDeltaJustification session)
            then NL @ ''  - Motive : '' @ the (cashDeltaJustification session) else []),
         db))"

text \<open>\<^verbatim>\<open>generateXTicketText\<close> reads the clock: \<open>now\<close> is what the \<^verbatim>\<open>new Date()\<close> of its template
  returns.\<close>

definition generateXTicketText ::
  "RuntimeConfig \<Rightarrow> Host \<Rightarrow> Date \<Rightarrow> Database \<Rightarrow> PosSession \<Rightarrow> IncomesMap
     \<Rightarrow> string \<times> Database" where
  "generateXTicketText cfg host now db session incomesMap =
     (let currency' = currency (cashOpening session);
          incomes = incomesMap;
          totalIncome = foldl (\<lambda>sum (method', data). jsAdd sum (amount data)) zero incomes;
          incomeLines = joinLines
            (map (\<lambda>(method', data). moneyLine host method' (amount data) (currency data)) incomes)
      in (brandName cfg @ '' X ticket'' @ NL
         @ ''Opening time : '' @ toLocaleString host (openedAt session)
         @ '' by '' @ displayName (openedBy session) @ NL
         @ ''X ticket current time : '' @ toLocaleString host now
         @ '' by '' @ displayName (openedBy session) @ NL @ NL
         @ ''Daily incomes so far :'' @ NL
         @ incomeLines @ NL
         @ ''Daily incomes total so far :'' @ NL
         @ ''  - '' @ toFixed2 host totalIncome @ '' '' @ currency',
         db))"

section \<open>The session lifecycle\<close>

definition getCurrentPosSession :: "Database \<Rightarrow> PosSession option" where
  "getCurrentPosSession db =
     findOneSortDesc (\<lambda>s. status s = Active) openedAt (posSessions db)"

definition getLastClosedSession :: "Database \<Rightarrow> PosSession option" where
  "getLastClosedSession db =
     findOneSortDesc (\<lambda>s. status s = Closed) closedAt (posSessions db)"

record OpenParams =
  open_cashOpening :: Money
  open_user :: PosSessionUser

text \<open>\<open>newId\<close> is what \<^verbatim>\<open>new ObjectId()\<close> returns; the three dates are read in the order of
  the object literal: \<^verbatim>\<open>openedAt\<close>, \<^verbatim>\<open>createdAt\<close>, \<^verbatim>\<open>updatedAt\<close>. The warning about a float
  that differs from the last closing (\<^verbatim>\<open>amount !== ... || currency !== ...\<close>) is the else
  branch of the test that both are equal (\<^verbatim>\<open>===\<close>); it is printed before the insert.\<close>

definition openPosSession ::
  "RuntimeConfig \<Rightarrow> (nat \<Rightarrow> Date) \<Rightarrow> ObjectId \<Rightarrow> Database \<Rightarrow> OpenParams
     \<Rightarrow> (error + ObjectId) \<times> Database" where
  "openPosSession cfg clk newId db params =
     (if \<not> posSessionsEnabled cfg then (Inl NotEnabled, db)
      else (case getCurrentPosSession db of
        Some existingSession \<Rightarrow> (Inl AlreadyActive, db)
      | None \<Rightarrow>
          let lastSession = getLastClosedSession db;
              yesterdayClosing = (case lastSession of None \<Rightarrow> None | Some l \<Rightarrow> cashClosing l);
              db1 = (case yesterdayClosing of
                       None \<Rightarrow> db
                     | Some y \<Rightarrow>
                         if jsStrictEq (amount y) (amount (open_cashOpening params))
                            \<and> currency y = currency (open_cashOpening params)
                         then db
                         else db\<lparr>console := console db
                                   @ [OpeningAmountMismatch y (open_cashOpening params)]\<rparr>);
              session = \<lparr>createdAt = clk 1, updatedAt = clk 2,
                         doc_id = newId, status = Active,
                         openedAt = clk 0, openedBy = open_user params,
                         closedAt = None, closedBy = None,
                         cashOpening = open_cashOpening params,
                         cashClosing = None, cashClosingTheoretical = None,
                         cashDelta = None, cashDeltaJustification = None,
                         dailyIncomes = [], dailyOutcomes = [], xTickets = []\<rparr>
          in (case insertOne session (posSessions db1) of
                Inl e \<Rightarrow> (Inl e, db1)
              | Inr docs \<Rightarrow> (Inr (doc_id session), db1\<lparr>posSessions := docs\<rparr>))))"

record CloseParams =
  close_sessionId :: ObjectId
  close_cashClosing :: Money
  close_outcomes :: "PosSessionOutcome list"
  close_cashDeltaJustification :: "string option"
  close_user :: PosSessionUser

text \<open>\<^verbatim>\<open>closePosSession\<close> up to its last \<^verbatim>\<open>await\<close>: it reads the session and the orders,
  and computes the closed session or fails.\<close>

definition closeRead :: "(nat \<Rightarrow> Date) \<Rightarrow> Database \<Rightarrow> CloseParams \<Rightarrow> error + PosSession" where
  "closeRead clk db params =
     (case findOne (\<lambda>s. doc_id s = close_sessionId params) (posSessions db) of
        None \<Rightarrow> Inl NotFound
      | Some session \<Rightarrow>
          if status session = Closed then Inl AlreadyClosed
          else
            let incomesMap = calculateDailyIncomes db session;
                dailyIncomes' = map (\<lambda>(method', data).
                    \<lparr>amount = amount data, currency = currency data, paymentMethod = method'\<rparr>)
                  incomesMap;
                cashIncome = (case mapGet incomesMap ''point-of-sale'' of
                                Some data \<Rightarrow> amount data
                              | None \<Rightarrow> zero);
                totalOutcomes = foldl (\<lambda>sum outcome. jsAdd sum (amount outcome)) zero
                                  (close_outcomes params);
                cashClosingTheoretical' =
                  \<lparr>amount = jsSub (jsAdd (amount (cashOpening session)) cashIncome) totalOutcomes,
                   currency = currency (cashOpening session)\<rparr>;
                cashDelta' =
                  \<lparr>amount = jsSub (amount (close_cashClosing params))
                              (amount cashClosingTheoretical'),
                   currency = currency (cashOpening session)\<rparr>
            in if jsGt (jsAbs (amount cashDelta')) pointZeroOne
                  \<and> \<not> truthy (close_cashDeltaJustification params)
               then Inl JustificationRequired
               else Inr (session\<lparr>status := Closed,
                           closedAt := Some (clk 0),
                           closedBy := Some (close_user params),
                           cashClosing := Some (close_cashClosing params),
                           cashClosingTheoretical := Some cashClosingTheoretical',
                           cashDelta := Some cashDelta',
                           cashDeltaJustification := close_cashDeltaJustification params,
                           dailyIncomes := dailyIncomes',
                           dailyOutcomes := close_outcomes params,
                           updatedAt := clk 1\<rparr>))"

text \<open>The rest of \<^verbatim>\<open>closePosSession\<close>: the \<^verbatim>\<open>replaceOne\<close>, whose filter is the \<^verbatim>\<open>_id\<close> alone,
  on the database as it is by then, and the Z ticket, rendered after the two dates of
  \<open>closeRead\<close> have been read.\<close>

definition closeWrite ::
  "RuntimeConfig \<Rightarrow> Host \<Rightarrow> (nat \<Rightarrow> Date) \<Rightarrow> Database \<Rightarrow> CloseParams \<Rightarrow> PosSession
     \<Rightarrow> (error + PosSession \<times> string) \<times> Database" where
  "closeWrite cfg host clk db params updatedSession =
     (let db1 = db\<lparr>posSessions :=
            replaceOne (\<lambda>s. doc_id s = close_sessionId params) updatedSession (posSessions db)\<rparr>;
          (zTicketText, db2) = generateZTicketText cfg host (clk 2) db1 updatedSession
      in (Inr (updatedSession, zTicketText), db2))"

definition closePosSession ::
  "RuntimeConfig \<Rightarrow> Host \<Rightarrow> (nat \<Rightarrow> Date) \<Rightarrow> Database \<Rightarrow> CloseParams
     \<Rightarrow> (error + PosSession \<times> string) \<times> Database" where
  "closePosSession cfg host clk db params =
     (case closeRead clk db params of
        Inl e \<Rightarrow> (Inl e, db)
      | Inr updatedSession \<Rightarrow> closeWrite cfg host clk db params updatedSession)"

record XTicketParams =
  x_sessionId :: ObjectId
  x_user :: PosSessionUser

definition generateXTicket ::
  "RuntimeConfig \<Rightarrow> Host \<Rightarrow> (nat \<Rightarrow> Date) \<Rightarrow> Database \<Rightarrow> XTicketParams
     \<Rightarrow> (error + string) \<times> Database" where
  "generateXTicket cfg host clk db params =
     (case findOne (\<lambda>s. doc_id s = x_sessionId params) (posSessions db) of
        None \<Rightarrow> (Inl NotFound, db)
      | Some session \<Rightarrow>
          if status session \<noteq> Active then (Inl NotActive, db)
          else
            let incomesMap = calculateDailyIncomes db session;
                db1 = db\<lparr>posSessions :=
                  updateOne (\<lambda>s. doc_id s = x_sessionId params)
                    (\<lambda>s. s\<lparr>xTickets := xTickets s
                               @ [\<lparr>generatedAt = clk 0, generatedBy = x_user params\<rparr>],
                            updatedAt := clk 1\<rparr>)
                    (posSessions db)\<rparr>;
                (xTicketText, db2) = generateXTicketText cfg host (clk 2) db1 session incomesMap
            in (Inr xTicketText, db2))"

section \<open>The closing page\<close>

record LocalsUser =
  locals_alias :: "string option"
  locals_login :: string

record ClosingPageData =
  page_session :: "ObjectId \<times> Date \<times> Money"
  page_incomes :: "PosSessionIncome list"
  cashDeltaJustificationMandatory :: bool
  page_user :: "LocalsUser option"

definition load :: "RuntimeConfig \<Rightarrow> Database \<Rightarrow> LocalsUser option \<Rightarrow> error + ClosingPageData" where
  "load cfg db localsUser =
     (case getCurrentPosSession db of
        None \<Rightarrow> Inl NoActiveSession
      | Some posSession \<Rightarrow>
          Inr \<lparr>page_session = (doc_id posSession, openedAt posSession, cashOpening posSession),
               page_incomes = map (\<lambda>(method', data).
                   \<lparr>amount = amount data, currency = currency data, paymentMethod = method'\<rparr>)
                 (calculateDailyIncomes db posSession),
               cashDeltaJustificationMandatory = posCashDeltaJustificationMandatory cfg,
               page_user = localsUser\<rparr>)"

section \<open>What the aggregation computes\<close>

text \<open>The payments that count for a session, in the words of the specification: those
  of an order created at or after the opening of the session, where the order is paid and
  the payment is paid; in the order of the collection.\<close>

definition includedPayments :: "Database \<Rightarrow> PosSession \<Rightarrow> Payment list" where
  "includedPayments db session =
     concat (map (\<lambda>order. filter (\<lambda>p. openedAt session \<le> orderCreatedAt order
                                      \<and> orderStatus order = ''paid'' \<and> paymentStatus p = ''paid'')
                            (payments order))
                 (orders db))"

text \<open>The elements of a list in the order of their first occurrence.\<close>

primrec firstSeen :: "'a list \<Rightarrow> 'a list" where
  "firstSeen [] = []"
| "firstSeen (x # xs) = x # removeAll x (firstSeen xs)"

definition methodGroup :: "PaymentMethod \<Rightarrow> Payment list \<Rightarrow> Payment list" where
  "methodGroup m ps = filter (\<lambda>p. payment_method p = m) ps"

text \<open>The sum of numbers as the code adds them: from the first one on, one after the other,
  every addition rounded.\<close>

definition jsSumFrom :: "number \<Rightarrow> number list \<Rightarrow> number" where
  "jsSumFrom a as = foldl jsAdd a as"

text \<open>The income of a method: the sum of its payments' amounts, starting from the first
  of them, in the currency of the first of them.\<close>

definition groupIncome :: "PaymentMethod \<Rightarrow> Payment list \<Rightarrow> Money" where
  "groupIncome m ps =
     \<lparr>amount = jsSumFrom (amount (price (hd (methodGroup m ps))))
                 (map (\<lambda>p. amount (price p)) (tl (methodGroup m ps))),
      currency = currency (price (hd (methodGroup m ps)))\<rparr>"

definition aggregateSpec :: "Payment list \<Rightarrow> IncomesMap" where
  "aggregateSpec ps = map (\<lambda>m. (m, groupIncome m ps)) (firstSeen (map payment_method ps))"

text \<open>The quantities of the closing, in the words of the specification: the cash income
  is the aggregated amount of the cash method \<^verbatim>\<open>point-of-sale\<close>, 0 when the method is absent;
  the theoretical closing cash is the opening cash plus the cash income minus the sum of
  the outcomes; the delta is the declared closing cash minus the theoretical one. Plus,
  minus and the sum are those of the code's numbers: the sum starts from 0 and every
  operation rounds.\<close>

definition cashIncomeOf :: "IncomesMap \<Rightarrow> number" where
  "cashIncomeOf incomes =
     (case mapGet incomes ''point-of-sale'' of Some data \<Rightarrow> amount data | None \<Rightarrow> zero)"

definition theoreticalCash :: "Database \<Rightarrow> PosSession \<Rightarrow> CloseParams \<Rightarrow> number" where
  "theoreticalCash db session params =
     jsSub (jsAdd (amount (cashOpening session)) (cashIncomeOf (calculateDailyIncomes db session)))
       (jsSumFrom zero (map amount (close_outcomes params)))"

definition declaredDelta :: "Database \<Rightarrow> PosSession \<Rightarrow> CloseParams \<Rightarrow> number" where
  "declaredDelta db session params =
     jsSub (amount (close_cashClosing params)) (theoreticalCash db session params)"

section \<open>Sequences of calls\<close>

text \<open>The sessions of the database that are active, and the invariant that there is at
  most one.\<close>

definition activeSessions :: "Database \<Rightarrow> PosSession list" where
  "activeSessions db = filter (\<lambda>s. status s = Active) (posSessions db)"

definition atMostOneActive :: "Database \<Rightarrow> bool" where
  "atMostOneActive db = (length (activeSessions db) \<le> 1)"

text \<open>A call of one of the three operations, with the configuration, the clock and the
  fresh identifier it meets; a sequence of calls runs one call after the other, each on the
  database the one before has left.\<close>

datatype call =
    OpenCall RuntimeConfig "nat \<Rightarrow> Date" ObjectId OpenParams
  | CloseCall RuntimeConfig Host "nat \<Rightarrow> Date" CloseParams
  | XTicketCall RuntimeConfig Host "nat \<Rightarrow> Date" XTicketParams

fun perform :: "Database \<Rightarrow> call \<Rightarrow> Database" where
  "perform db (OpenCall cfg clk newId params) = snd (openPosSession cfg clk newId db params)"
| "perform db (CloseCall cfg host clk params) = snd (closePosSession cfg host clk db params)"
| "perform db (XTicketCall cfg host clk params) = snd (generateXTicket cfg host clk db params)"

definition run :: "Database \<Rightarrow> call list \<Rightarrow> Database" where
  "run db calls = foldl perform db calls"

text \<open>Two calls of \<^verbatim>\<open>closePosSession\<close> that overlap: JavaScript runs each call up to its next
  \<^verbatim>\<open>await\<close>, so both calls may read the session before either replaces it. The schedule:
  A reads, B reads, A writes, B writes.\<close>

definition closeRace ::
  "RuntimeConfig \<Rightarrow> Host \<Rightarrow> (nat \<Rightarrow> Date) \<Rightarrow> (nat \<Rightarrow> Date) \<Rightarrow> Database \<Rightarrow> CloseParams \<Rightarrow> CloseParams
     \<Rightarrow> (error + PosSession \<times> string) \<times> (error + PosSession \<times> string) \<times> Database" where
  "closeRace cfg host clkA clkB db paramsA paramsB =
     (let readA = closeRead clkA db paramsA;
          readB = closeRead clkB db paramsB;
          (resultA, db1) = (case readA of
                              Inl e \<Rightarrow> (Inl e, db)
                            | Inr updatedSession \<Rightarrow>
                                closeWrite cfg host clkA db paramsA updatedSession);
          (resultB, db2) = (case readB of
                              Inl e \<Rightarrow> (Inl e, db1)
                            | Inr updatedSession \<Rightarrow>
                                closeWrite cfg host clkB db1 paramsB updatedSession)
      in (resultA, resultB, db2))"

section \<open>A shop, for the examples\<close>

text \<open>A host in the locale \<^verbatim>\<open>en-GB\<close> and the time zone UTC. Its \<^verbatim>\<open>toLocaleString\<close> prints
  \<^verbatim>\<open>dd/mm/yyyy, hh:mm:ss\<close>, to the second (for the years 1000 to 9999); its \<^verbatim>\<open>toFixed(2)\<close>
  prints the nearest multiple of 0.01 of the value of the double, the larger one on a
  tie (for amounts below \<open>10^21\<close>).\<close>

fun decimal :: "nat \<Rightarrow> string" where
  "decimal n = (if n < 10 then [''0123456789'' ! n]
                else decimal (n div 10) @ [''0123456789'' ! (n mod 10)])"

declare decimal.simps [simp del]

definition pad2 :: "int \<Rightarrow> string" where
  "pad2 n = (if n < 10 then ''0'' @ decimal (nat n) else decimal (nat n))"

text \<open>The civil date (year, month, day) of a number of days since 1 January 1970.\<close>

definition civilFromDays :: "int \<Rightarrow> int \<times> int \<times> int" where
  "civilFromDays days =
     (let z = days + 719468;
          era = z div 146097;
          doe = z mod 146097;
          yoe = (doe - doe div 1460 + doe div 36524 - doe div 146096) div 365;
          doy = doe - (365 * yoe + yoe div 4 - yoe div 100);
          mp = (5 * doy + 2) div 153;
          d = doy - (153 * mp + 2) div 5 + 1;
          m = (if mp < 10 then mp + 3 else mp - 9);
          y = yoe + era * 400 + (if m \<le> 2 then 1 else 0)
      in (y, m, d))"

definition printDate :: "Date \<Rightarrow> string" where
  "printDate t =
     (let secs = t div 1000;
          (y, m, d) = civilFromDays (secs div 86400);
          sod = secs mod 86400
      in pad2 d @ ''/'' @ pad2 m @ ''/'' @ decimal (nat y) @ '', ''
         @ pad2 (sod div 3600) @ '':'' @ pad2 (sod mod 3600 div 60) @ '':'' @ pad2 (sod mod 60))"

definition fixed2 :: "number \<Rightarrow> string" where
  "fixed2 a =
     (case a of
        NaN \<Rightarrow> ''NaN''
      | PosInf \<Rightarrow> ''Infinity''
      | NegInf \<Rightarrow> ''-Infinity''
      | Finite x \<Rightarrow>
          let n = nat \<lfloor>\<bar>x\<bar> * 100 + 1 / 2\<rfloor>
          in (if x < 0 then ''-'' else []) @ decimal (n div 100) @ ''.''
             @ [''0123456789'' ! (n div 10 mod 10), ''0123456789'' ! (n mod 10)])"

definition exampleHost :: Host where
  "exampleHost = \<lparr>toLocaleString = printDate, toFixed2 = fixed2\<rparr>"

definition alice :: PosSessionUser where
  "alice = \<lparr>userId = ''65a1'', userLogin = ''alice'', userAlias = None\<rparr>"

definition shopConfig :: RuntimeConfig where
  "shopConfig = \<lparr>brandName = ''be-BOP'', posSessionsEnabled = True,
                  posCashDeltaJustificationMandatory = False\<rparr>"

text \<open>Amounts written in decimal are the doubles that \<^verbatim>\<open>Number(...)\<close> makes of them.\<close>

definition cash :: "real \<Rightarrow> string \<Rightarrow> Payment" where
  "cash a st = \<lparr>payment_method = ''point-of-sale'', paymentStatus = st,
               price = \<lparr>amount = lit a, currency = ''EUR''\<rparr>\<rparr>"

definition card :: "real \<Rightarrow> string \<Rightarrow> Payment" where
  "card a st = \<lparr>payment_method = ''card'', paymentStatus = st,
               price = \<lparr>amount = lit a, currency = ''EUR''\<rparr>\<rparr>"

definition morningSession :: PosSession where
  "morningSession =
     \<lparr>createdAt = 1000, updatedAt = 1000, doc_id = ''s1'', status = Active,
      openedAt = 1000, openedBy = alice, closedAt = None, closedBy = None,
      cashOpening = \<lparr>amount = Finite 100, currency = ''EUR''\<rparr>,
      cashClosing = None, cashClosingTheoretical = None, cashDelta = None,
      cashDeltaJustification = None, dailyIncomes = [], dailyOutcomes = [], xTickets = []\<rparr>"

definition shopOrders :: "Order list" where
  "shopOrders =
     [\<lparr>orderCreatedAt = 500, orderStatus = ''paid'', payments = [cash 10 ''paid'']\<rparr>,
      \<lparr>orderCreatedAt = 2000, orderStatus = ''paid'', payments = [cash 20 ''paid'', card 5 ''pending'']\<rparr>,
      \<lparr>orderCreatedAt = 3000, orderStatus = ''paid'', payments = [card 7 ''paid'', cash 30 ''paid'']\<rparr>,
      \<lparr>orderCreatedAt = 4000, orderStatus = ''pending'', payments = [cash 40 ''paid'']\<rparr>]"

definition shopDb :: Database where
  "shopDb = \<lparr>posSessions = [morningSession], orders = shopOrders, console = []\<rparr>"

definition closing :: "real \<Rightarrow> string option \<Rightarrow> CloseParams" where
  "closing declared why =
     \<lparr>close_sessionId = ''s1'',
      close_cashClosing = \<lparr>amount = lit declared, currency = ''EUR''\<rparr>,
      close_outcomes = [\<lparr>amount = Finite 30, currency = ''EUR'', category = ''bank-deposit''\<rparr>],
      close_cashDeltaJustification = why,
      close_user = alice\<rparr>"

definition closedShopConfig :: RuntimeConfig where
  "closedShopConfig = shopConfig\<lparr>posSessionsEnabled := False\<rparr>"

definition wallClock :: "nat \<Rightarrow> Date" where
  "wallClock k = 9000 + int k"

definition morningFloat :: OpenParams where
  "morningFloat = \<lparr>open_cashOpening = \<lparr>amount = Finite 100, currency = ''EUR''\<rparr>,
                   open_user = alice\<rparr>"

text \<open>The shop after the morning session is closed with 120 declared.\<close>

definition eveningSession :: PosSession where
  "eveningSession =
     morningSession\<lparr>status := Closed,
            closedAt := Some 9000,
            closedBy := Some alice,
            cashClosing := Some \<lparr>amount = Finite 120, currency = ''EUR''\<rparr>,
            cashClosingTheoretical := Some \<lparr>amount = Finite 120, currency = ''EUR''\<rparr>,
            cashDelta := Some \<lparr>amount = Finite 0, currency = ''EUR''\<rparr>,
            cashDeltaJustification := None,
            dailyIncomes :=
              [\<lparr>amount = Finite 50, currency = ''EUR'', paymentMethod = ''point-of-sale''\<rparr>,
               \<lparr>amount = Finite 7, currency = ''EUR'', paymentMethod = ''card''\<rparr>],
            dailyOutcomes :=
              [\<lparr>amount = Finite 30, currency = ''EUR'', category = ''bank-deposit''\<rparr>],
            updatedAt := 9001\<rparr>"

definition eveningDb :: Database where
  "eveningDb = shopDb\<lparr>posSessions := [eveningSession]\<rparr>"

text \<open>A second closing of the morning session, read at 9500, with 120 declared as well; a
  request for an X ticket; the session opened after the closing, and a day of calls.\<close>

definition lateClock :: "nat \<Rightarrow> Date" where
  "lateClock k = 9500 + int k"

definition nightSession :: PosSession where
  "nightSession = eveningSession\<lparr>closedAt := Some 9500, updatedAt := 9501\<rparr>"

definition ticketRequest :: XTicketParams where
  "ticketRequest = \<lparr>x_sessionId = ''s1'', x_user = alice\<rparr>"

definition tomorrowSession :: PosSession where
  "tomorrowSession =
     \<lparr>createdAt = 9501, updatedAt = 9502, doc_id = ''s2'', status = Active,
      openedAt = 9500, openedBy = alice, closedAt = None, closedBy = None,
      cashOpening = \<lparr>amount = Finite 100, currency = ''EUR''\<rparr>,
      cashClosing = None, cashClosingTheoretical = None, cashDelta = None,
      cashDeltaJustification = None, dailyIncomes = [], dailyOutcomes = [], xTickets = []\<rparr>"

definition shopDay :: "call list" where
  "shopDay =
     [CloseCall shopConfig exampleHost wallClock (closing 120 None),
      OpenCall shopConfig lateClock ''s2'' morningFloat,
      OpenCall shopConfig lateClock ''s3'' morningFloat]"





text \<open>A shop that has sold for 0.1 and for 0.2 in cash.\<close>

definition dimesDb :: Database where
  "dimesDb =
     \<lparr>posSessions = [morningSession],
      orders = [\<lparr>orderCreatedAt = 2000, orderStatus = ''paid'',
                 payments = [cash 0.1 ''paid'', cash 0.2 ''paid'']\<rparr>],
      console = []\<rparr>"

section \<open>The aggregation meets its specification\<close>

lemma filter_concat_payments:
  "filter Q (concat (map payments (filter P os))) =
   concat (map (\<lambda>order. filter (\<lambda>p. P order \<and> Q p) (payments order)) os)"
  by (induction os) auto

lemma paidPayments_included: "paidPayments db session = includedPayments db session"
  unfolding paidPayments_def includedPayments_def
  by (simp add: filter_concat_payments)

lemma set_firstSeen [simp]: "set (firstSeen xs) = set xs"
  by (induction xs) auto

lemma distinct_firstSeen [simp]: "distinct (firstSeen xs)"
  by (induction xs) (auto simp: distinct_removeAll)

lemma firstSeen_snoc:
  "firstSeen (xs @ [x]) = (if x \<in> set xs then firstSeen xs else firstSeen xs @ [x])"
  by (induction xs) auto

lemma mapGet_map:
  "mapGet (map (\<lambda>m. (m, f m)) ks) k = (if k \<in> set ks then Some (f k) else None)"
  by (induction ks) auto

lemma mapSet_new:
  "k \<notin> set ks \<Longrightarrow> mapSet (map (\<lambda>m. (m, f m)) ks) k v = map (\<lambda>m. (m, f m)) ks @ [(k, v)]"
  by (induction ks) auto

lemma mapSet_old:
  "distinct ks \<Longrightarrow> k \<in> set ks \<Longrightarrow>
     mapSet (map (\<lambda>m. (m, f m)) ks) k v = map (\<lambda>m. (m, if m = k then v else f m)) ks"
  by (induction ks) auto

text \<open>One step of the loop keeps the map equal to the specification of the payments seen
  so far.\<close>

lemma addPayment_spec: "addPayment (aggregateSpec ps) p = aggregateSpec (ps @ [p])"
proof (cases "payment_method p \<in> set (map payment_method ps)")
  case True
  then have ne: "methodGroup (payment_method p) ps \<noteq> []"
    by (auto simp: methodGroup_def filter_empty_conv)
  have "groupIncome m (ps @ [p]) =
        (if m = payment_method p
         then (groupIncome (payment_method p) ps)
                \<lparr>amount := jsAdd (amount (groupIncome (payment_method p) ps)) (amount (price p))\<rparr>
         else groupIncome m ps)" for m
    using ne by (simp add: groupIncome_def methodGroup_def jsSumFrom_def)
  with True show ?thesis
    by (simp add: addPayment_def aggregateSpec_def mapGet_map mapSet_old firstSeen_snoc)
next
  case False
  then have "\<forall>q \<in> set ps. payment_method q \<noteq> payment_method p"
    by (metis image_eqI set_map)
  then have e: "methodGroup (payment_method p) ps = []"
    by (simp add: methodGroup_def filter_empty_conv)
  have g: "groupIncome m (ps @ [p]) = groupIncome m ps" if "m \<in> set (map payment_method ps)" for m
    using that False by (auto simp: groupIncome_def methodGroup_def)
  have n: "groupIncome (payment_method p) (ps @ [p]) =
           \<lparr>amount = amount (price p), currency = currency (price p)\<rparr>"
    using e by (simp add: groupIncome_def methodGroup_def jsSumFrom_def)
  from False show ?thesis
    using g n
    by (simp add: addPayment_def aggregateSpec_def mapGet_map mapSet_new firstSeen_snoc)
qed

lemma foldl_addPayment: "foldl addPayment [] ps = aggregateSpec ps"
proof (induction ps rule: rev_induct)
  case Nil
  show ?case by (simp add: aggregateSpec_def)
next
  case (snoc p ps)
  then show ?case by (simp add: addPayment_spec)
qed

section \<open>Numbers, evaluated\<close>

text \<open>The doubles of the decimals of the examples, and the sums and differences that the
  examples meet, each by unfolding the rounding: the exponent first, then the quantum.
  0.1 + 0.2 is 0.30000000000000004, and 119.99 - 120 is -0.010000000000005116.\<close>

lemma lit_7: "lit 7 = Finite 7"
  apply (simp add: lit_def jsSub_def pointZeroOne_def jsAdd.simps)
  apply (simp only: round64_def Let_def expo_def)
  apply (simp add: expoUp.simps expoDown.simps)
  apply (simp add: pow2_def roundHalfEven_def Let_def)
  done

lemma lit_20: "lit 20 = Finite 20"
  apply (simp add: lit_def jsSub_def pointZeroOne_def jsAdd.simps)
  apply (simp only: round64_def Let_def expo_def)
  apply (simp add: expoUp.simps expoDown.simps)
  apply (simp add: pow2_def roundHalfEven_def Let_def)
  done

lemma lit_30: "lit 30 = Finite 30"
  apply (simp add: lit_def jsSub_def pointZeroOne_def jsAdd.simps)
  apply (simp only: round64_def Let_def expo_def)
  apply (simp add: expoUp.simps expoDown.simps)
  apply (simp add: pow2_def roundHalfEven_def Let_def)
  done

lemma lit_100: "lit 100 = Finite 100"
  apply (simp add: lit_def jsSub_def pointZeroOne_def jsAdd.simps)
  apply (simp only: round64_def Let_def expo_def)
  apply (simp add: expoUp.simps expoDown.simps)
  apply (simp add: pow2_def roundHalfEven_def Let_def)
  done

lemma lit_120: "lit 120 = Finite 120"
  apply (simp add: lit_def jsSub_def pointZeroOne_def jsAdd.simps)
  apply (simp only: round64_def Let_def expo_def)
  apply (simp add: expoUp.simps expoDown.simps)
  apply (simp add: pow2_def roundHalfEven_def Let_def)
  done



lemma lit_01: "lit (1 / 10) = Finite (3602879701896397 / 36028797018963968)"
  apply (simp add: lit_def jsSub_def pointZeroOne_def jsAdd.simps)
  apply (simp only: round64_def Let_def expo_def)
  apply (simp add: expoUp.simps expoDown.simps)
  apply (simp add: pow2_def roundHalfEven_def Let_def)
  done

lemma lit_02: "lit (1 / 5) = Finite (3602879701896397 / 18014398509481984)"
  apply (simp add: lit_def jsSub_def pointZeroOne_def jsAdd.simps)
  apply (simp only: round64_def Let_def expo_def)
  apply (simp add: expoUp.simps expoDown.simps)
  apply (simp add: pow2_def roundHalfEven_def Let_def)
  done

lemma lit_03: "lit (3 / 10) = Finite (5404319552844595 / 18014398509481984)"
  apply (simp add: lit_def jsSub_def pointZeroOne_def jsAdd.simps)
  apply (simp only: round64_def Let_def expo_def)
  apply (simp add: expoUp.simps expoDown.simps)
  apply (simp add: pow2_def roundHalfEven_def Let_def)
  done

lemma pointZeroOne_value: "pointZeroOne = Finite (5764607523034235 / 576460752303423488)"
  apply (simp add: lit_def jsSub_def pointZeroOne_def jsAdd.simps)
  apply (simp only: round64_def Let_def expo_def)
  apply (simp add: expoUp.simps expoDown.simps)
  apply (simp add: pow2_def roundHalfEven_def Let_def)
  done

lemma add_20_30: "jsAdd (Finite 20) (Finite 30) = Finite 50"
  apply (simp add: lit_def jsSub_def pointZeroOne_def jsAdd.simps)
  apply (simp only: round64_def Let_def expo_def)
  apply (simp add: expoUp.simps expoDown.simps)
  apply (simp add: pow2_def roundHalfEven_def Let_def)
  done

lemma add_100_50: "jsAdd (Finite 100) (Finite 50) = Finite 150"
  apply (simp add: lit_def jsSub_def pointZeroOne_def jsAdd.simps)
  apply (simp only: round64_def Let_def expo_def)
  apply (simp add: expoUp.simps expoDown.simps)
  apply (simp add: pow2_def roundHalfEven_def Let_def)
  done

lemma add_0_30: "jsAdd (Finite 0) (Finite 30) = Finite 30"
  apply (simp add: lit_def jsSub_def pointZeroOne_def jsAdd.simps)
  apply (simp only: round64_def Let_def expo_def)
  apply (simp add: expoUp.simps expoDown.simps)
  apply (simp add: pow2_def roundHalfEven_def Let_def)
  done

lemma sub_150_30: "jsSub (Finite 150) (Finite 30) = Finite 120"
  apply (simp add: lit_def jsSub_def pointZeroOne_def jsAdd.simps)
  apply (simp only: round64_def Let_def expo_def)
  apply (simp add: expoUp.simps expoDown.simps)
  apply (simp add: pow2_def roundHalfEven_def Let_def)
  done

lemma sub_100_120: "jsSub (Finite 100) (Finite 120) = Finite (- 20)"
  apply (simp add: lit_def jsSub_def pointZeroOne_def jsAdd.simps)
  apply (simp only: round64_def Let_def expo_def)
  apply (simp add: expoUp.simps expoDown.simps)
  apply (simp add: pow2_def roundHalfEven_def Let_def)
  done



lemma add_01_02: "jsAdd (Finite (3602879701896397 / 36028797018963968)) (Finite (3602879701896397 / 18014398509481984)) = Finite (1351079888211149 / 4503599627370496)"
  apply (simp add: lit_def jsSub_def pointZeroOne_def jsAdd.simps)
  apply (simp only: round64_def Let_def expo_def)
  apply (simp add: expoUp.simps expoDown.simps)
  apply (simp add: pow2_def roundHalfEven_def Let_def)
  done





lemma add_2p53_1: "jsAdd (Finite 9007199254740992) (Finite 1) = Finite 9007199254740992"
  apply (simp add: lit_def jsSub_def pointZeroOne_def jsAdd.simps)
  apply (simp only: round64_def Let_def expo_def)
  apply (simp add: expoUp.simps expoDown.simps)
  apply (simp add: pow2_def roundHalfEven_def Let_def)
  done



lemma sub_120_120: "jsSub (Finite 120) (Finite 120) = Finite 0"
  by (simp add: jsSub_def round64_def jsAdd.simps)

lemma lit_1005: "lit (201 / 200) = Finite (1131529406376837 / 1125899906842624)"
  apply (simp add: lit_def jsSub_def pointZeroOne_def jsAdd.simps)
  apply (simp only: round64_def Let_def expo_def)
  apply (simp add: expoUp.simps expoDown.simps)
  apply (simp add: pow2_def roundHalfEven_def Let_def)
  done

text \<open>The double 1.005 lies below 1.005, and \<^verbatim>\<open>toFixed(2)\<close> prints it as 1.00.\<close>

lemma fixed2_1005: "fixed2 (lit 1.005) = ''1.00''"
  apply (simp add: lit_1005)
  apply (simp only: fixed2_def Let_def number.case)
  apply (simp add: decimal.simps)
  done

section \<open>What the aggregation returns\<close>

text \<open>
  Claim C3, amended. The income aggregation counts exactly the payments of the orders
  created at or after the opening of the session whose order status and payment status
  are both \<^verbatim>\<open>paid\<close>; for each payment method it returns the sum of the counted payments'
  amounts as the code's numbers add them, starting from the first payment of the method
  and adding the others one after the other, every addition rounded to the nearest double,
  in the currency of the first counted payment of that method; and the methods come in
  the order in which they are first seen.
\<close>

theorem calculateDailyIncomes_aggregates:
  "calculateDailyIncomes db session = aggregateSpec (includedPayments db session)"
  by (simp add: calculateDailyIncomes_def foldl_addPayment paidPayments_included)

text \<open>The claim as it was stated, "the arithmetic sum of the included payments' amounts",
  fails on two cash payments of 0.1 and 0.2: the aggregation returns the double
  0.30000000000000004, which is neither the sum of the two doubles nor the double 0.3.\<close>

lemma dimes_incomes:
  "calculateDailyIncomes dimesDb morningSession =
     [(''point-of-sale'', \<lparr>amount = Finite (5404319552844596 / 2 ^ 54), currency = ''EUR''\<rparr>)]"
  by (simp add: calculateDailyIncomes_def paidPayments_def addPayment_def dimesDb_def
      morningSession_def cash_def lit_01 lit_02 add_01_02 mapSet.simps)

theorem aggregated_sum_is_rounded:
  "map (\<lambda>p. amount (price p)) (includedPayments dimesDb morningSession)
     = [Finite (3602879701896397 / 2 ^ 55), Finite (3602879701896397 / 2 ^ 54)]
   \<and> calculateDailyIncomes dimesDb morningSession =
     [(''point-of-sale'', \<lparr>amount = Finite (5404319552844596 / 2 ^ 54), currency = ''EUR''\<rparr>)]
   \<and> (5404319552844596 / 2 ^ 54 :: real) \<noteq> 3602879701896397 / 2 ^ 55 + 3602879701896397 / 2 ^ 54
   \<and> Finite (5404319552844596 / 2 ^ 54) \<noteq> lit 0.3"
proof -
  have "map (\<lambda>p. amount (price p)) (includedPayments dimesDb morningSession)
     = [Finite (3602879701896397 / 2 ^ 55), Finite (3602879701896397 / 2 ^ 54)]"
    by (simp add: includedPayments_def dimesDb_def morningSession_def cash_def lit_01 lit_02)
  moreover have "(5404319552844596 / 2 ^ 54 :: real)
      \<noteq> 3602879701896397 / 2 ^ 55 + 3602879701896397 / 2 ^ 54"
    by simp
  moreover have "Finite (5404319552844596 / 2 ^ 54) \<noteq> lit 0.3"
    by (simp add: lit_03)
  ultimately show ?thesis
    using dimes_incomes by blast
qed

section \<open>The shop of the examples, evaluated\<close>

lemma ex_incomes:
  "calculateDailyIncomes shopDb morningSession =
     [(''point-of-sale'', \<lparr>amount = Finite 50, currency = ''EUR''\<rparr>),
      (''card'', \<lparr>amount = Finite 7, currency = ''EUR''\<rparr>)]"
  by (simp add: calculateDailyIncomes_def paidPayments_def addPayment_def shopDb_def
      shopOrders_def morningSession_def cash_def card_def lit_7 lit_20 lit_30 add_20_30)

lemma morning_active: "status morningSession = Active"
  by (simp add: morningSession_def)

lemma morning_fields:
  "cashOpening morningSession = \<lparr>amount = Finite 100, currency = ''EUR''\<rparr>"
  "doc_id morningSession = ''s1''"
  by (simp_all add: morningSession_def)

lemma closing_fields:
  "close_sessionId (closing declared why) = ''s1''"
  "close_cashClosing (closing declared why) = \<lparr>amount = lit declared, currency = ''EUR''\<rparr>"
  "close_outcomes (closing declared why) =
     [\<lparr>amount = Finite 30, currency = ''EUR'', category = ''bank-deposit''\<rparr>]"
  "close_cashDeltaJustification (closing declared why) = why"
  "close_user (closing declared why) = alice"
  by (simp_all add: closing_def)

lemma shop_sessions: "posSessions shopDb = [morningSession]"
  by (simp add: shopDb_def)

lemma shop_s1: "findOne (\<lambda>s. doc_id s = ''s1'') (posSessions shopDb) = Some morningSession"
  by (simp add: shop_sessions morning_fields)

lemma shop_session_found:
  "findOne (\<lambda>s. doc_id s = close_sessionId (closing declared why)) (posSessions shopDb)
     = Some morningSession"
  by (simp add: shopDb_def closing_def morningSession_def)

section \<open>Closing a session\<close>

lemma foldl_add_amount:
  "foldl (\<lambda>sum x. jsAdd sum (amount x)) a xs = jsSumFrom a (map amount xs)"
  by (simp add: jsSumFrom_def foldl_map)

lemma errors_distinct:
  "NotFound \<noteq> JustificationRequired" "AlreadyClosed \<noteq> JustificationRequired"
  "NotFound \<noteq> AlreadyClosed" "NotEnabled \<noteq> AlreadyActive"
  by (simp_all add: NotFound_def JustificationRequired_def AlreadyClosed_def NotEnabled_def
      AlreadyActive_def)

text \<open>The renderers leave the database as they find it.\<close>

lemma generateZTicketText_db: "snd (generateZTicketText cfg host now db session) = db"
  by (simp add: generateZTicketText_def Let_def)

lemma generateXTicketText_db: "snd (generateXTicketText cfg host now db session incomes) = db"
  by (simp add: generateXTicketText_def Let_def)

lemma closeWrite_result:
  "closeWrite cfg host clk db params updatedSession =
     (Inr (updatedSession,
           fst (generateZTicketText cfg host (clk 2)
                  (db\<lparr>posSessions := replaceOne (\<lambda>s. doc_id s = close_sessionId params)
                                         updatedSession (posSessions db)\<rparr>)
                  updatedSession)),
      db\<lparr>posSessions := replaceOne (\<lambda>s. doc_id s = close_sessionId params)
                             updatedSession (posSessions db)\<rparr>)"
  using generateZTicketText_db [of cfg host "clk 2"
      "db\<lparr>posSessions := replaceOne (\<lambda>s. doc_id s = close_sessionId params)
                               updatedSession (posSessions db)\<rparr>" updatedSession]
  by (simp add: closeWrite_def Let_def split_beta)

text \<open>What \<open>closeRead\<close> returns for a session that is found and active.\<close>

lemma closeRead_active:
  assumes "findOne (\<lambda>s. doc_id s = close_sessionId params) (posSessions db) = Some session"
    and "status session = Active"
  shows "closeRead clk db params =
     (if jsGt (jsAbs (declaredDelta db session params)) pointZeroOne
         \<and> \<not> truthy (close_cashDeltaJustification params)
      then Inl JustificationRequired
      else Inr (session\<lparr>status := Closed,
                  closedAt := Some (clk 0),
                  closedBy := Some (close_user params),
                  cashClosing := Some (close_cashClosing params),
                  cashClosingTheoretical :=
                    Some \<lparr>amount = theoreticalCash db session params,
                          currency = currency (cashOpening session)\<rparr>,
                  cashDelta :=
                    Some \<lparr>amount = declaredDelta db session params,
                          currency = currency (cashOpening session)\<rparr>,
                  cashDeltaJustification := close_cashDeltaJustification params,
                  dailyIncomes := map (\<lambda>(m, data).
                      \<lparr>amount = amount data, currency = currency data, paymentMethod = m\<rparr>)
                    (calculateDailyIncomes db session),
                  dailyOutcomes := close_outcomes params,
                  updatedAt := clk 1\<rparr>))"
  using assms
  by (simp add: closeRead_def Let_def declaredDelta_def theoreticalCash_def cashIncomeOf_def
      foldl_add_amount)

lemma shop_theoretical:
  "theoreticalCash shopDb morningSession (closing declared why) = Finite 120"
  by (simp add: theoreticalCash_def cashIncomeOf_def ex_incomes closing_fields morning_fields
      jsSumFrom_def zero_def add_100_50 add_0_30 sub_150_30)

lemma shop_delta:
  "declaredDelta shopDb morningSession (closing declared why) = jsSub (lit declared) (Finite 120)"
  by (simp add: declaredDelta_def shop_theoretical closing_fields)

lemma shop_closeRead:
  "closeRead wallClock shopDb (closing 120 None) = Inr eveningSession"
  by (simp add: closeRead_active [OF shop_session_found morning_active] shop_delta
      shop_theoretical ex_incomes truthy_def closing_fields morning_fields wallClock_def
      eveningSession_def lit_120 sub_120_120 pointZeroOne_value)

lemma shop_close:
  "closePosSession shopConfig exampleHost wallClock shopDb (closing 120 None) =
     (Inr (eveningSession,
           fst (generateZTicketText shopConfig exampleHost (wallClock 2) eveningDb eveningSession)),
      eveningDb)"
  unfolding closePosSession_def shop_closeRead
  by (simp add: closeWrite_result eveningDb_def replaceOne_def closing_fields morning_fields
      shop_sessions)

text \<open>
  Claim C1. When a close request on an active session succeeds, the closed session holds
  \<open>cashClosingTheoretical.amount = cashOpening.amount + cashIncome - totalOutcomes\<close>, where
  \<open>cashIncome\<close> is the aggregated amount of the cash method (0 when absent) and
  \<open>totalOutcomes\<close> is the sum of the outcomes supplied, and
  \<open>cashDelta.amount = declared closing amount - cashClosingTheoretical.amount\<close>; both are
  in the currency of the opening cash. Plus, minus and the sum are the operations of the
  code's numbers.
\<close>

theorem close_computes_theoretical_cash_and_delta:
  assumes "findOne (\<lambda>s. doc_id s = close_sessionId params) (posSessions db) = Some session"
    and "status session = Active"
    and "closePosSession cfg host clk db params = (Inr (closedSession, zTicketText), db')"
  shows "cashClosingTheoretical closedSession =
           Some \<lparr>amount = jsSub (jsAdd (amount (cashOpening session))
                                   (cashIncomeOf (calculateDailyIncomes db session)))
                             (jsSumFrom zero (map amount (close_outcomes params))),
                 currency = currency (cashOpening session)\<rparr>
         \<and> cashDelta closedSession =
           Some \<lparr>amount = jsSub (amount (close_cashClosing params))
                             (jsSub (jsAdd (amount (cashOpening session))
                                       (cashIncomeOf (calculateDailyIncomes db session)))
                                (jsSumFrom zero (map amount (close_outcomes params)))),
                 currency = currency (cashOpening session)\<rparr>"
proof -
  from assms(3) have "closeRead clk db params = Inr closedSession"
    by (auto simp: closePosSession_def closeWrite_result split: sum.splits)
  with closeRead_active [OF assms(1,2), of clk] show ?thesis
    by (auto simp: declaredDelta_def theoreticalCash_def split: if_splits)
qed

text \<open>The example of the specification: opening 100, cash income 50, outcomes [30] give a
  theoretical closing of 120; with 120 declared the delta is 0.\<close>

theorem close_computes_theoretical_cash_and_delta_witness:
  "closePosSession shopConfig exampleHost wallClock shopDb (closing 120 None) =
     (Inr (eveningSession,
           fst (generateZTicketText shopConfig exampleHost (wallClock 2) eveningDb eveningSession)),
      eveningDb)
   \<and> cashClosingTheoretical eveningSession = Some \<lparr>amount = Finite 120, currency = ''EUR''\<rparr>
   \<and> cashDelta eveningSession = Some \<lparr>amount = Finite 0, currency = ''EUR''\<rparr>
   \<and> jsSub (jsAdd (Finite 100) (Finite 50)) (jsSumFrom zero [Finite 30]) = Finite 120"
proof -
  have "cashClosingTheoretical eveningSession = Some \<lparr>amount = Finite 120, currency = ''EUR''\<rparr>
     \<and> cashDelta eveningSession = Some \<lparr>amount = Finite 0, currency = ''EUR''\<rparr>"
    using close_computes_theoretical_cash_and_delta
      [OF shop_session_found morning_active shop_close]
    by (simp add: cashIncomeOf_def ex_incomes closing_fields morning_fields jsSumFrom_def
        zero_def add_100_50 add_0_30 sub_150_30 lit_120 sub_120_120)
  moreover have "jsSub (jsAdd (Finite 100) (Finite 50)) (jsSumFrom zero [Finite 30]) = Finite 120"
    by (simp add: jsSumFrom_def zero_def add_100_50 add_0_30 sub_150_30)
  ultimately show ?thesis
    using shop_close by blast
qed







text \<open>
  Claim C5. A close request on a session that is already closed fails with
  \<open>AlreadyClosed\<close>, and the database, so every field of the session, is unchanged.
\<close>

theorem close_closed_session_fails:
  assumes "findOne (\<lambda>s. doc_id s = close_sessionId params) (posSessions db) = Some session"
    and "status session = Closed"
  shows "closePosSession cfg host clk db params = (Inl AlreadyClosed, db)"
  using assms by (simp add: closePosSession_def closeRead_def)

text \<open>The morning session, once closed, cannot be closed again.\<close>

theorem close_closed_session_fails_witness:
  "findOne (\<lambda>s. doc_id s = close_sessionId (closing 119.99 None)) (posSessions eveningDb)
     = Some eveningSession
   \<and> status eveningSession = Closed
   \<and> closePosSession shopConfig exampleHost wallClock eveningDb (closing 119.99 None)
     = (Inl AlreadyClosed, eveningDb)"
proof -
  have found: "findOne (\<lambda>s. doc_id s = close_sessionId (closing 119.99 None)) (posSessions eveningDb)
     = Some eveningSession"
    by (simp add: eveningDb_def eveningSession_def closing_fields morning_fields)
  have isClosed: "status eveningSession = Closed"
    by (simp add: eveningSession_def)
  from close_closed_session_fails [OF found isClosed] found isClosed show ?thesis
    by blast
qed

section \<open>The flag that makes the justification mandatory\<close>

text \<open>The flag reaches the closing page, and the close operation does not read it.\<close>

lemma load_passes_flag:
  "load cfg db u = Inr page \<Longrightarrow>
     cashDeltaJustificationMandatory page = posCashDeltaJustificationMandatory cfg"
  by (auto simp: load_def split: option.splits)

lemma close_ignores_flag:
  "closePosSession (cfg\<lparr>posCashDeltaJustificationMandatory := b\<rparr>) host clk db params =
   closePosSession cfg host clk db params"
  by (simp add: closePosSession_def closeWrite_def generateZTicketText_def split: sum.splits)

text \<open>
  Claim C4. With the flag \<open>posCashDeltaJustificationMandatory\<close> false, a close request whose
  delta exceeds 0.01 and that brings no justification should succeed. The code does not:
  in the shop, where the flag is false, declaring 100 against a theoretical closing of 120
  fails with \<open>JustificationRequired\<close>.
\<close>

theorem close_requires_justification_when_not_mandatory:
  "posCashDeltaJustificationMandatory shopConfig = False
   \<and> closePosSession shopConfig exampleHost wallClock shopDb (closing 100 None)
     = (Inl JustificationRequired, shopDb)"
  by (simp add: closePosSession_def closeRead_active [OF shop_session_found morning_active]
      shop_delta truthy_def closing_fields shopConfig_def lit_100 sub_100_120
      pointZeroOne_value)

section \<open>Opening a session\<close>

text \<open>
  Claim C10. When the flag \<open>posSessionsEnabled\<close> is false, opening fails with the error
  \<^verbatim>\<open>POS sessions are not enabled\<close> whatever the database holds, an active session or not,
  and the database is unchanged.
\<close>

theorem open_requires_enabled:
  "\<not> posSessionsEnabled cfg \<Longrightarrow> openPosSession cfg clk newId db params = (Inl NotEnabled, db)"
  by (simp add: openPosSession_def)

text \<open>The shop has an active session; with sessions disabled the answer is not
  \<open>AlreadyActive\<close> but \<open>NotEnabled\<close>.\<close>

theorem open_requires_enabled_witness:
  "\<not> posSessionsEnabled closedShopConfig
   \<and> openPosSession closedShopConfig wallClock ''s2'' shopDb morningFloat = (Inl NotEnabled, shopDb)"
  using open_requires_enabled [of closedShopConfig wallClock "''s2''" shopDb morningFloat]
  by (simp add: closedShopConfig_def shopConfig_def)

section \<open>Facts about the store\<close>

lemma findOne_holds: "findOne P xs = Some x \<Longrightarrow> P x"
  by (induction xs) (auto split: if_splits)

lemma findOne_split:
  "findOne P xs = Some x \<Longrightarrow> \<exists>pre post. xs = pre @ x # post \<and> (\<forall>y\<in>set pre. \<not> P y)"
proof (induction xs)
  case Nil
  then show ?case by simp
next
  case (Cons a xs)
  show ?case
  proof (cases "P a")
    case True
    with Cons.prems have "a # xs = [] @ x # xs" by simp
    then show ?thesis by fastforce
  next
    case False
    with Cons obtain pre post where "xs = pre @ x # post" "\<forall>y\<in>set pre. \<not> P y"
      by auto
    with False have "a # xs = (a # pre) @ x # post \<and> (\<forall>y\<in>set (a # pre). \<not> P y)"
      by simp
    then show ?thesis by blast
  qed
qed

lemma findOne_at_split:
  "\<forall>y\<in>set pre. \<not> P y \<Longrightarrow> P x \<Longrightarrow> findOne P (pre @ x # post) = Some x"
  by (induction pre) auto

lemma updateOne_at_split:
  "\<forall>y\<in>set pre. \<not> P y \<Longrightarrow> P x \<Longrightarrow> updateOne P f (pre @ x # post) = pre @ f x # post"
  by (induction pre) auto

lemma findOne_updateOne:
  "findOne P xs = Some x \<Longrightarrow> P (f x) \<Longrightarrow> findOne P (updateOne P f xs) = Some (f x)"
  by (induction xs) (auto split: if_splits)

lemma findOneSortDesc_None: "(findOneSortDesc P key xs = None) = (filter P xs = [])"
  by (simp add: findOneSortDesc_def split: list.splits)

section \<open>Interim X tickets\<close>

lemma generateXTicket_at_split:
  assumes "posSessions db = pre @ session # post"
    and "\<forall>y\<in>set pre. doc_id y \<noteq> x_sessionId params"
    and "doc_id session = x_sessionId params"
    and "status session = Active"
  shows "\<exists>out. generateXTicket cfg host clk db params =
     (Inr out,
      db\<lparr>posSessions := pre @ session\<lparr>xTickets := xTickets session
                @ [\<lparr>generatedAt = clk 0, generatedBy = x_user params\<rparr>],
              updatedAt := clk 1\<rparr> # post\<rparr>)"
proof -
  have "findOne (\<lambda>s. doc_id s = x_sessionId params) (posSessions db) = Some session"
    using assms(1-3) by (simp add: findOne_at_split)
  moreover have "updateOne (\<lambda>s. doc_id s = x_sessionId params) f (posSessions db)
      = pre @ f session # post" for f
    using assms(1-3) by (simp add: updateOne_at_split)
  ultimately show ?thesis
    using assms(4) generateXTicketText_db
    by (simp add: generateXTicket_def Let_def split_beta)
qed

text \<open>
  Claim C7. Generating an X ticket on an active session appends one entry, the time of
  the generation and the operator, to the X-ticket log of the session and sets
  \<open>updatedAt\<close>; every other field of the session, every other session, the orders and the
  console are as before: the status stays active and the closing fields stay as they
  were. A second generation appends a second entry after the first.
\<close>

theorem generateXTicket_appends_one_entry:
  assumes "findOne (\<lambda>s. doc_id s = x_sessionId params) (posSessions db) = Some session"
    and "status session = Active"
  shows "\<exists>text pre post.
     posSessions db = pre @ session # post
     \<and> generateXTicket cfg host clk db params =
         (Inr text,
          db\<lparr>posSessions := pre @ session\<lparr>xTickets := xTickets session
                    @ [\<lparr>generatedAt = clk 0, generatedBy = x_user params\<rparr>],
                  updatedAt := clk 1\<rparr> # post\<rparr>)
     \<and> (\<forall>cfg' host' clk' params'. x_sessionId params' = x_sessionId params \<longrightarrow>
          (\<exists>text'. generateXTicket cfg' host' clk'
                      (snd (generateXTicket cfg host clk db params)) params' =
             (Inr text',
              db\<lparr>posSessions := pre @ session\<lparr>xTickets := xTickets session
                        @ [\<lparr>generatedAt = clk 0, generatedBy = x_user params\<rparr>,
                           \<lparr>generatedAt = clk' 0, generatedBy = x_user params'\<rparr>],
                      updatedAt := clk' 1\<rparr> # post\<rparr>)))"
proof -
  from findOne_split [OF assms(1)] obtain pre post
    where split: "posSessions db = pre @ session # post"
      and before: "\<forall>y\<in>set pre. doc_id y \<noteq> x_sessionId params"
    by blast
  from findOne_holds [OF assms(1)] have same: "doc_id session = x_sessionId params" .
  let ?once = "session\<lparr>xTickets := xTickets session
                  @ [\<lparr>generatedAt = clk 0, generatedBy = x_user params\<rparr>],
                updatedAt := clk 1\<rparr>"
  let ?db1 = "db\<lparr>posSessions := pre @ ?once # post\<rparr>"
  from generateXTicket_at_split [OF split before same assms(2), of cfg host clk]
  obtain out1 where first: "generateXTicket cfg host clk db params = (Inr out1, ?db1)"
    by blast
  have second: "\<exists>out2. generateXTicket cfg' host' clk' ?db1 params' =
      (Inr out2,
       db\<lparr>posSessions := pre @ session\<lparr>xTickets := xTickets session
                        @ [\<lparr>generatedAt = clk 0, generatedBy = x_user params\<rparr>,
                           \<lparr>generatedAt = clk' 0, generatedBy = x_user params'\<rparr>],
                      updatedAt := clk' 1\<rparr> # post\<rparr>)"
    if "x_sessionId params' = x_sessionId params" for cfg' host' clk' params'
    using generateXTicket_at_split [of ?db1 pre ?once post params' cfg' host' clk']
      before same assms(2) that
    by simp
  from split first second show ?thesis
    by (simp del: Database.simps PosSession.simps) blast
qed

text \<open>Two X tickets on the morning session of the shop, whose log is empty: the log holds
  the two entries, in order.\<close>

lemma shop_ticket_found:
  "findOne (\<lambda>s. doc_id s = x_sessionId ticketRequest) (posSessions shopDb) = Some morningSession"
  by (simp add: ticketRequest_def shop_s1)

theorem generateXTicket_appends_one_entry_witness:
  "\<exists>text text'.
     generateXTicket shopConfig exampleHost wallClock shopDb ticketRequest =
       (Inr text,
        shopDb\<lparr>posSessions := [morningSession\<lparr>xTickets :=
            [\<lparr>generatedAt = 9000, generatedBy = alice\<rparr>], updatedAt := 9001\<rparr>]\<rparr>)
     \<and> generateXTicket shopConfig exampleHost lateClock
         (snd (generateXTicket shopConfig exampleHost wallClock shopDb ticketRequest)) ticketRequest =
       (Inr text',
        shopDb\<lparr>posSessions := [morningSession\<lparr>xTickets :=
            [\<lparr>generatedAt = 9000, generatedBy = alice\<rparr>,
             \<lparr>generatedAt = 9500, generatedBy = alice\<rparr>], updatedAt := 9501\<rparr>]\<rparr>)"
proof -
  from generateXTicket_appends_one_entry [OF shop_ticket_found morning_active,
      of shopConfig exampleHost wallClock]
  obtain out1 pre post where
    split: "posSessions shopDb = pre @ morningSession # post"
    and first: "generateXTicket shopConfig exampleHost wallClock shopDb ticketRequest =
         (Inr out1,
          shopDb\<lparr>posSessions := pre @ morningSession\<lparr>xTickets := xTickets morningSession
                    @ [\<lparr>generatedAt = wallClock 0, generatedBy = x_user ticketRequest\<rparr>],
                  updatedAt := wallClock 1\<rparr> # post\<rparr>)"
    and second: "\<And>cfg' host' clk' params'. x_sessionId params' = x_sessionId ticketRequest \<Longrightarrow>
          (\<exists>text'. generateXTicket cfg' host' clk'
                      (snd (generateXTicket shopConfig exampleHost wallClock shopDb ticketRequest)) params' =
             (Inr text',
              shopDb\<lparr>posSessions := pre @ morningSession\<lparr>xTickets := xTickets morningSession
                        @ [\<lparr>generatedAt = wallClock 0, generatedBy = x_user ticketRequest\<rparr>,
                           \<lparr>generatedAt = clk' 0, generatedBy = x_user params'\<rparr>],
                      updatedAt := clk' 1\<rparr> # post\<rparr>))"
    by blast
  from split have pp: "pre = [] \<and> post = []"
    by (simp add: shop_sessions append_eq_Cons_conv Cons_eq_append_conv)
  have log: "xTickets morningSession = []" "x_user ticketRequest = alice"
    "wallClock 0 = 9000" "wallClock 1 = 9001" "lateClock 0 = 9500" "lateClock 1 = 9501"
    by (simp_all add: morningSession_def ticketRequest_def wallClock_def lateClock_def)
  from second [of ticketRequest shopConfig exampleHost lateClock] obtain out2 where
    "generateXTicket shopConfig exampleHost lateClock
       (snd (generateXTicket shopConfig exampleHost wallClock shopDb ticketRequest)) ticketRequest =
     (Inr out2,
      shopDb\<lparr>posSessions := pre @ morningSession\<lparr>xTickets := xTickets morningSession
                @ [\<lparr>generatedAt = wallClock 0, generatedBy = x_user ticketRequest\<rparr>,
                   \<lparr>generatedAt = lateClock 0, generatedBy = x_user ticketRequest\<rparr>],
              updatedAt := lateClock 1\<rparr> # post\<rparr>)"
    by blast
  with first pp log show ?thesis
    by simp
qed

section \<open>At most one active session\<close>

lemma closeRead_Closed: "closeRead clk db params = Inr u \<Longrightarrow> status u = Closed"
  by (auto simp: closeRead_def Let_def split: option.splits if_splits)

lemma closeRead_doc_id: "closeRead clk db params = Inr u \<Longrightarrow> doc_id u = close_sessionId params"
  by (auto simp: closeRead_def Let_def split: option.splits if_splits dest: findOne_holds)

lemma active_after_replace:
  "status doc = Closed \<Longrightarrow>
     length (filter (\<lambda>s. status s = Active) (updateOne P (\<lambda>_. doc) xs))
       \<le> length (filter (\<lambda>s. status s = Active) xs)"
  by (induction xs) auto

lemma statuses_after_update:
  "(\<And>x. status (f x) = status x) \<Longrightarrow> map status (updateOne P f xs) = map status xs"
  by (induction xs) auto

lemma active_by_statuses:
  "length (filter (\<lambda>s. status s = Active) xs) = length (filter (\<lambda>st. st = Active) (map status xs))"
  by (induction xs) auto

lemma open_sessions_cases:
  "posSessions (snd (openPosSession cfg clk newId db params)) = posSessions db
   \<or> (getCurrentPosSession db = None
      \<and> (\<exists>session. status session = Active
            \<and> posSessions (snd (openPosSession cfg clk newId db params)) = posSessions db @ [session]))"
  by (auto simp: openPosSession_def insertOne_def Let_def split: option.splits)

lemma open_keeps_invariant:
  assumes "atMostOneActive db"
  shows "atMostOneActive (snd (openPosSession cfg clk newId db params))"
proof -
  from open_sessions_cases [of cfg clk newId db params] show ?thesis
  proof
    assume "posSessions (snd (openPosSession cfg clk newId db params)) = posSessions db"
    with assms show ?thesis by (simp add: atMostOneActive_def activeSessions_def)
  next
    assume "getCurrentPosSession db = None
      \<and> (\<exists>session. status session = Active
            \<and> posSessions (snd (openPosSession cfg clk newId db params)) = posSessions db @ [session])"
    then show ?thesis
      by (auto simp: atMostOneActive_def activeSessions_def getCurrentPosSession_def
          findOneSortDesc_None)
  qed
qed

lemma close_keeps_invariant:
  assumes "atMostOneActive db"
  shows "atMostOneActive (snd (closePosSession cfg host clk db params))"
proof (cases "closeRead clk db params")
  case (Inl e)
  with assms show ?thesis by (simp add: closePosSession_def)
next
  case (Inr u)
  from closeRead_Closed [OF Inr]
  have "length (filter (\<lambda>s. status s = Active)
           (updateOne (\<lambda>s. doc_id s = close_sessionId params) (\<lambda>_. u) (posSessions db)))
        \<le> length (filter (\<lambda>s. status s = Active) (posSessions db))"
    by (rule active_after_replace)
  with assms Inr show ?thesis
    by (simp add: closePosSession_def closeWrite_result replaceOne_def atMostOneActive_def
        activeSessions_def)
qed

lemma xticket_statuses:
  "map status (posSessions (snd (generateXTicket cfg host clk db params)))
     = map status (posSessions db)"
  by (simp add: generateXTicket_def Let_def split_beta generateXTicketText_db
      statuses_after_update split: option.splits)

lemma xticket_keeps_invariant:
  assumes "atMostOneActive db"
  shows "atMostOneActive (snd (generateXTicket cfg host clk db params))"
  using assms xticket_statuses [of cfg host clk db params]
  by (simp add: atMostOneActive_def activeSessions_def active_by_statuses)

lemma perform_keeps_invariant: "atMostOneActive db \<Longrightarrow> atMostOneActive (perform db c)"
  by (cases c) (simp_all add: open_keeps_invariant close_keeps_invariant xticket_keeps_invariant)

lemma run_keeps_invariant: "atMostOneActive db \<Longrightarrow> atMostOneActive (run db calls)"
  unfolding run_def
  by (induction calls arbitrary: db) (simp_all add: perform_keeps_invariant)

lemma open_statuses:
  "take (length (posSessions db))
     (map status (posSessions (snd (openPosSession cfg clk newId db params))))
   = map status (posSessions db)"
  using open_sessions_cases [of cfg clk newId db params] by auto

lemma open_with_active_session:
  assumes "\<exists>s\<in>set (posSessions db). status s = Active"
  shows "openPosSession cfg clk newId db params =
     (Inl (if posSessionsEnabled cfg then AlreadyActive else NotEnabled), db)"
proof -
  from assms have "filter (\<lambda>s. status s = Active) (posSessions db) \<noteq> []"
    by (simp add: filter_empty_conv)
  then obtain existing where "getCurrentPosSession db = Some existing"
    using findOneSortDesc_None [of "\<lambda>s. status s = Active" openedAt "posSessions db"]
    by (auto simp: getCurrentPosSession_def)
  then show ?thesis
    by (simp add: openPosSession_def)
qed

text \<open>
  Claim C8, amended. After every sequence of calls of open, close and X-ticket generation,
  run one after the other from a database with at most one active session, at most one
  session is active. When an active session exists, open fails and changes nothing: with
  \<open>AlreadyActive\<close> when POS sessions are enabled, with \<open>NotEnabled\<close> when they are not. Open
  and X-ticket generation leave the status of every stored session as it was, so that
  close is the only way out of the active status.
\<close>

theorem singleton_active_session:
  assumes "atMostOneActive db"
  shows "atMostOneActive (run db calls)
     \<and> ((\<exists>s\<in>set (posSessions (run db calls)). status s = Active) \<longrightarrow>
          openPosSession cfg clk newId (run db calls) params =
            (Inl (if posSessionsEnabled cfg then AlreadyActive else NotEnabled), run db calls))
     \<and> take (length (posSessions db))
          (map status (posSessions (perform db (OpenCall cfg clk newId params))))
        = map status (posSessions db)
     \<and> map status (posSessions (perform db (XTicketCall cfg host clk xparams)))
        = map status (posSessions db)"
  using run_keeps_invariant [OF assms] open_with_active_session open_statuses xticket_statuses
  by simp

text \<open>A day in the shop: the morning session is closed, a session is opened, a second open
  fails; then one session is active and a further open fails with \<open>AlreadyActive\<close>.\<close>

lemma evening_fields:
  "status eveningSession = Closed" "doc_id eveningSession = ''s1''"
  "cashClosing eveningSession = Some \<lparr>amount = Finite 120, currency = ''EUR''\<rparr>"
  "closedAt eveningSession = Some 9000"
  by (simp_all add: eveningSession_def morningSession_def)

lemma tomorrow_fields:
  "status tomorrowSession = Active" "doc_id tomorrowSession = ''s2''"
  "openedAt tomorrowSession = 9500"
  by (simp_all add: tomorrowSession_def)

lemma evening_open:
  "openPosSession shopConfig lateClock ''s2'' eveningDb morningFloat =
     (Inr ''s2'',
      eveningDb\<lparr>console := [OpeningAmountMismatch \<lparr>amount = Finite 120, currency = ''EUR''\<rparr>
                               \<lparr>amount = Finite 100, currency = ''EUR''\<rparr>],
                posSessions := [eveningSession, tomorrowSession]\<rparr>)"
  by (simp add: openPosSession_def getCurrentPosSession_def getLastClosedSession_def
      findOneSortDesc_def insertOne_def Let_def eveningDb_def shopDb_def evening_fields
      shopConfig_def morningFloat_def lateClock_def tomorrowSession_def jsStrictEq_def)

lemma shopDay_sessions: "posSessions (run shopDb shopDay) = [eveningSession, tomorrowSession]"
proof -
  have "perform shopDb (CloseCall shopConfig exampleHost wallClock (closing 120 None)) = eveningDb"
    unfolding perform.simps shop_close by simp
  moreover have "posSessions (perform eveningDb (OpenCall shopConfig lateClock ''s2'' morningFloat))
      = [eveningSession, tomorrowSession]"
    unfolding perform.simps evening_open by simp
  moreover have "perform db (OpenCall shopConfig lateClock ''s3'' morningFloat) = db"
    if "posSessions db = [eveningSession, tomorrowSession]" for db
    using that open_with_active_session [of db shopConfig lateClock "''s3''" morningFloat]
    by (simp add: tomorrow_fields)
  ultimately show ?thesis
    by (simp add: run_def shopDay_def)
qed

theorem singleton_active_session_witness:
  "atMostOneActive shopDb
   \<and> atMostOneActive (run shopDb shopDay)
   \<and> (\<exists>s\<in>set (posSessions (run shopDb shopDay)). status s = Active)
   \<and> openPosSession shopConfig lateClock ''s4'' (run shopDb shopDay) morningFloat =
       (Inl AlreadyActive, run shopDb shopDay)"
proof -
  have start: "atMostOneActive shopDb"
    by (simp add: atMostOneActive_def activeSessions_def shop_sessions)
  have active: "\<exists>s\<in>set (posSessions (run shopDb shopDay)). status s = Active"
    by (simp add: shopDay_sessions tomorrow_fields)
  have enabled: "posSessionsEnabled shopConfig"
    by (simp add: shopConfig_def)
  from singleton_active_session [OF start, of shopDay shopConfig lateClock "''s4''" morningFloat]
    start active enabled
  show ?thesis by simp
qed

text \<open>The claim as it was stated, "open fails with \<open>AlreadyActive\<close> whenever an active
  session exists", fails when POS sessions are disabled.\<close>

theorem open_when_disabled_is_not_already_active:
  "(\<exists>s\<in>set (posSessions shopDb). status s = Active)
   \<and> fst (openPosSession closedShopConfig wallClock ''s2'' shopDb morningFloat) \<noteq> Inl AlreadyActive"
  by (simp add: openPosSession_def closedShopConfig_def shopConfig_def shop_sessions
      morning_active errors_distinct)

section \<open>Two closes of one session\<close>

lemma close_then_close:
  assumes "closePosSession cfg host clk db params = (Inr r, db')"
    and "close_sessionId params' = close_sessionId params"
  shows "closePosSession cfg' host' clk' db' params' = (Inl AlreadyClosed, db')"
proof -
  from assms(1) obtain u where read: "closeRead clk db params = Inr u"
    and db': "db' = db\<lparr>posSessions :=
        replaceOne (\<lambda>s. doc_id s = close_sessionId params) u (posSessions db)\<rparr>"
    by (auto simp: closePosSession_def closeWrite_result split: sum.splits)
  from read obtain session
    where found: "findOne (\<lambda>s. doc_id s = close_sessionId params) (posSessions db) = Some session"
    by (auto simp: closeRead_def split: option.splits)
  have "findOne (\<lambda>s. doc_id s = close_sessionId params) (posSessions db') = Some u"
    using findOne_updateOne [OF found, of "\<lambda>_. u"] closeRead_doc_id [OF read]
    by (simp add: db' replaceOne_def)
  with assms(2) closeRead_Closed [OF read] show ?thesis
    by (simp add: closePosSession_def closeRead_def)
qed

lemma closeRace_both_succeed:
  assumes "closeRead clkA db paramsA = Inr uA" and "closeRead clkB db paramsB = Inr uB"
  shows "\<exists>zA zB. closeRace cfg host clkA clkB db paramsA paramsB =
     (Inr (uA, zA), Inr (uB, zB),
      db\<lparr>posSessions :=
           replaceOne (\<lambda>s. doc_id s = close_sessionId paramsB) uB
             (replaceOne (\<lambda>s. doc_id s = close_sessionId paramsA) uA (posSessions db))\<rparr>)"
  using assms by (simp add: closeRace_def closeWrite_result)

lemma closeRace_later_write_wins:
  assumes "closeRead clkA db paramsA = Inr uA" and "closeRead clkB db paramsB = Inr uB"
    and "close_sessionId paramsA = close_sessionId paramsB"
  shows "findOne (\<lambda>s. doc_id s = close_sessionId paramsB)
           (posSessions (snd (snd (closeRace cfg host clkA clkB db paramsA paramsB)))) = Some uB"
proof -
  from assms(1) obtain session
    where found: "findOne (\<lambda>s. doc_id s = close_sessionId paramsB) (posSessions db) = Some session"
    using assms(3) by (auto simp: closeRead_def split: option.splits)
  have "findOne (\<lambda>s. doc_id s = close_sessionId paramsB)
          (updateOne (\<lambda>s. doc_id s = close_sessionId paramsB) (\<lambda>_. uA) (posSessions db)) = Some uA"
    using findOne_updateOne [OF found, of "\<lambda>_. uA"] closeRead_doc_id [OF assms(1)] assms(3)
    by simp
  from findOne_updateOne [OF this, of "\<lambda>_. uB"] closeRead_doc_id [OF assms(2)]
    closeRace_both_succeed [OF assms(1,2), of cfg host]
  show ?thesis
    by (auto simp: replaceOne_def assms(3))
qed

text \<open>
  Claim C9, amended. Two closes of the same session that run one after the other do not
  both succeed: the second fails with \<open>AlreadyClosed\<close>. The status is checked when close
  reads the session; the replace is conditioned on the \<^verbatim>\<open>_id\<close> alone. When two closes both
  read the session before either writes, both succeed, and the later write replaces the
  earlier one.
\<close>

theorem close_replace_checks_only_the_id:
  "(closePosSession cfg host clk db params = (Inr r, db')
      \<and> close_sessionId params' = close_sessionId params
    \<longrightarrow> closePosSession cfg' host' clk' db' params' = (Inl AlreadyClosed, db'))
   \<and> (closeRead clkA db paramsA = Inr uA \<and> closeRead clkB db paramsB = Inr uB
      \<and> close_sessionId paramsA = close_sessionId paramsB
    \<longrightarrow> (\<exists>zA. fst (closeRace cfg host clkA clkB db paramsA paramsB) = Inr (uA, zA))
        \<and> (\<exists>zB. fst (snd (closeRace cfg host clkA clkB db paramsA paramsB)) = Inr (uB, zB))
        \<and> findOne (\<lambda>s. doc_id s = close_sessionId paramsB)
             (posSessions (snd (snd (closeRace cfg host clkA clkB db paramsA paramsB)))) = Some uB)"
proof (intro conjI impI)
  assume "closePosSession cfg host clk db params = (Inr r, db')
      \<and> close_sessionId params' = close_sessionId params"
  then show "closePosSession cfg' host' clk' db' params' = (Inl AlreadyClosed, db')"
    using close_then_close by blast
next
  assume a: "closeRead clkA db paramsA = Inr uA \<and> closeRead clkB db paramsB = Inr uB
      \<and> close_sessionId paramsA = close_sessionId paramsB"
  then obtain zA zB where both: "closeRace cfg host clkA clkB db paramsA paramsB =
     (Inr (uA, zA), Inr (uB, zB),
      db\<lparr>posSessions :=
           replaceOne (\<lambda>s. doc_id s = close_sessionId paramsB) uB
             (replaceOne (\<lambda>s. doc_id s = close_sessionId paramsA) uA (posSessions db))\<rparr>)"
    using closeRace_both_succeed [of clkA db paramsA uA clkB paramsB uB cfg host] by blast
  show "\<exists>zA. fst (closeRace cfg host clkA clkB db paramsA paramsB) = Inr (uA, zA)"
    by (simp add: both)
  show "\<exists>zB. fst (snd (closeRace cfg host clkA clkB db paramsA paramsB)) = Inr (uB, zB)"
    by (simp add: both)
  show "findOne (\<lambda>s. doc_id s = close_sessionId paramsB)
             (posSessions (snd (snd (closeRace cfg host clkA clkB db paramsA paramsB)))) = Some uB"
    using a closeRace_later_write_wins by blast
qed

lemma shop_closeRead_late:
  "closeRead lateClock shopDb (closing 120 None) = Inr nightSession"
  by (simp add: closeRead_active [OF shop_session_found morning_active] shop_delta
      shop_theoretical ex_incomes truthy_def closing_fields morning_fields lateClock_def
      eveningSession_def nightSession_def lit_120 sub_120_120 pointZeroOne_value)

lemma shop_race:
  "\<exists>zA zB. closeRace shopConfig exampleHost wallClock lateClock shopDb
       (closing 120 None) (closing 120 None) =
     (Inr (eveningSession, zA), Inr (nightSession, zB), shopDb\<lparr>posSessions := [nightSession]\<rparr>)"
  using closeRace_both_succeed [OF shop_closeRead shop_closeRead_late, of shopConfig exampleHost]
  by (simp add: replaceOne_def closing_fields shop_sessions morning_fields evening_fields)

text \<open>In the shop, with 120 declared, which is the theoretical closing: a close after the
  close fails; two overlapping closes both succeed.\<close>

theorem close_replace_checks_only_the_id_witness:
  "closePosSession shopConfig exampleHost lateClock eveningDb (closing 120 None)
     = (Inl AlreadyClosed, eveningDb)
   \<and> (\<exists>zA. fst (closeRace shopConfig exampleHost wallClock lateClock shopDb
          (closing 120 None) (closing 120 None)) = Inr (eveningSession, zA))
   \<and> (\<exists>zB. fst (snd (closeRace shopConfig exampleHost wallClock lateClock shopDb
          (closing 120 None) (closing 120 None))) = Inr (nightSession, zB))
   \<and> findOne (\<lambda>s. doc_id s = ''s1'')
        (posSessions (snd (snd (closeRace shopConfig exampleHost wallClock lateClock shopDb
          (closing 120 None) (closing 120 None))))) = Some nightSession"
proof -
  note t = close_replace_checks_only_the_id
    [where cfg = shopConfig and host = exampleHost and clk = wallClock and db = shopDb
      and params = "closing 120 None"
      and r = "(eveningSession,
          fst (generateZTicketText shopConfig exampleHost (wallClock 2) eveningDb eveningSession))"
      and db' = eveningDb and params' = "closing 120 None"
      and cfg' = shopConfig and host' = exampleHost and clk' = lateClock
      and clkA = wallClock and paramsA = "closing 120 None" and uA = eveningSession
      and clkB = lateClock and paramsB = "closing 120 None" and uB = nightSession]
  from t shop_close shop_closeRead shop_closeRead_late show ?thesis
    by (simp add: closing_fields)
qed

text \<open>The claim as it was stated, "the losing call fails with \<open>AlreadyClosed\<close>", fails on
  two overlapping closes of the morning session, each with 120 declared: both return a
  closed session, and the database keeps the one written last.\<close>

theorem concurrent_closes_both_succeed:
  "\<exists>zA zB. closeRace shopConfig exampleHost wallClock lateClock shopDb
       (closing 120 None) (closing 120 None) =
     (Inr (eveningSession, zA), Inr (nightSession, zB), shopDb\<lparr>posSessions := [nightSession]\<rparr>)"
  by (rule shop_race)

section \<open>Rendering a ticket again\<close>

lemma generateZTicketText_independent:
  "fst (generateZTicketText cfg host t1 db1 session) = fst (generateZTicketText cfg host t2 db2 session)"
  by (simp add: generateZTicketText_def Let_def)

lemma generateXTicketText_same_iff:
  "(fst (generateXTicketText cfg host t1 db1 session incomes)
      = fst (generateXTicketText cfg host t2 db2 session incomes))
     = (toLocaleString host t1 = toLocaleString host t2)"
  by (simp add: generateXTicketText_def Let_def)

text \<open>
  Claim C6, amended. Rendering changes no state: each renderer leaves the database as it
  finds it. The Z ticket is reproducible: rendered from the same session, its text is the
  same at any time and whatever the database holds. The X ticket prints the time at which
  it is rendered: two renderings of the same session and incomes give the same bytes
  exactly when their two times print alike.
\<close>

theorem ticket_text_reproducible:
  "snd (generateZTicketText cfg host now db session) = db
   \<and> snd (generateXTicketText cfg host now db session incomes) = db
   \<and> fst (generateZTicketText cfg host t1 db1 session) = fst (generateZTicketText cfg host t2 db2 session)
   \<and> ((fst (generateXTicketText cfg host t1 db1 session incomes)
         = fst (generateXTicketText cfg host t2 db2 session incomes))
       = (toLocaleString host t1 = toLocaleString host t2))"
  using generateZTicketText_db generateXTicketText_db generateZTicketText_independent
    generateXTicketText_same_iff
  by simp

text \<open>The host of the examples prints to the second: times within one second print alike,
  times a minute apart do not.\<close>

lemma civil_epoch: "civilFromDays 0 = (1970, 1, 1)"
  apply (simp only: civilFromDays_def Let_def)
  apply simp
  done

lemma printed_parts:
  "decimal 1970 = ''1970''" "pad2 0 = ''00''" "pad2 1 = ''01''" "pad2 9 = ''09''"
  by (simp_all add: pad2_def decimal.simps)

lemma printDate_9000: "printDate 9000 = ''01/01/1970, 00:00:09''"
  apply (simp only: printDate_def Let_def)
  apply (simp add: civil_epoch printed_parts)
  done

lemma printDate_69000: "printDate 69000 = ''01/01/1970, 00:01:09''"
  apply (simp only: printDate_def Let_def)
  apply (simp add: civil_epoch printed_parts)
  done

lemma printDate_same_second: "printDate 9002 = printDate 9502"
  apply (simp only: printDate_def Let_def)
  apply simp
  done

text \<open>The claim as it was stated, "rendering the X ticket twice from the same snapshot
  produces byte-identical output", fails on two renderings a minute apart, at 00:00:09
  and at 00:01:09 of 1 January 1970, of the morning session with the incomes of the
  shop.\<close>

theorem xticket_text_depends_on_render_time:
  "toLocaleString exampleHost 9000 = ''01/01/1970, 00:00:09''
   \<and> toLocaleString exampleHost 69000 = ''01/01/1970, 00:01:09''
   \<and> fst (generateXTicketText shopConfig exampleHost 9000 shopDb morningSession
             (calculateDailyIncomes shopDb morningSession))
      \<noteq> fst (generateXTicketText shopConfig exampleHost 69000 shopDb morningSession
             (calculateDailyIncomes shopDb morningSession))"
  by (simp add: generateXTicketText_same_iff exampleHost_def printDate_9000 printDate_69000)

end
